theory Spec2Isabelle
  imports Main "HOL-Library.Char_ord" "HOL-Library.List_Lexorder"
begin

section \<open>Driver registry and loader of modelbox (libmodelbox/base/drivers/driver.cc)\<close>

text \<open>
  A shallow embedding of \<^verbatim>\<open>driver.cc\<close>. Strings are \<^typ>\<open>string\<close> with the byte-wise
  lexicographic order of \<^verbatim>\<open>std::string::operator<\<close> (unsigned bytes, a proper prefix is
  smaller). Library handles and factories are opaque identities. The C++ \<^verbatim>\<open>int\<close> counters
  are modelled as \<^typ>\<open>int\<close>: the operations below move them by one step at a time and no
  property depends on their width.
\<close>

subsection \<open>Data model\<close>

datatype StatusCode =
  STATUS_SUCCESS | STATUS_FAULT | STATUS_NOTFOUND | STATUS_INVALID
  | STATUS_BADCONF | STATUS_EXIST | STATUS_NOTSUPPORT

abbreviation STATUS_OK :: StatusCode where
  "STATUS_OK \<equiv> STATUS_SUCCESS"

text \<open>A \<^verbatim>\<open>Status\<close> is a code with an error message.\<close>

type_synonym Status = "StatusCode \<times> string"

record DriverDesc =
  driver_class :: string
  driver_type :: string
  driver_name :: string
  driver_description :: string
  driver_version :: string
  driver_file_path :: string
  driver_no_delete :: bool
  global :: bool
  deep_bind :: bool

text \<open>
  Modelled from the spec: the initial member values of \<^verbatim>\<open>DriverDesc\<close> and \<^verbatim>\<open>Driver\<close>
  are set in \<^verbatim>\<open>driver.h\<close>, which is not among the sources. A new descriptor has empty
  strings and its flags off; a new driver has a descriptor of its own, the count 0, no
  handle and no factory.
\<close>

definition new_DriverDesc :: DriverDesc where
  "new_DriverDesc =
     \<lparr>driver_class = [], driver_type = [], driver_name = [], driver_description = [],
      driver_version = [], driver_file_path = [], driver_no_delete = False,
      global = False, deep_bind = False\<rparr>"

type_synonym handle = nat
type_synonym factory_ref = nat

record Driver =
  desc :: DriverDesc
  factory_count :: int
  driver_handler :: "handle option"
  factory :: "factory_ref option"
  is_virtual :: bool

definition new_Driver :: Driver where
  "new_Driver =
     \<lparr>desc = new_DriverDesc, factory_count = 0, driver_handler = None, factory = None,
      is_virtual = False\<rparr>"

text \<open>What stops the process: \<^verbatim>\<open>Abort\<close>, or the dereference of a null pointer.\<close>

datatype fault = Aborted string | NullDereference

subsection \<open>\<^verbatim>\<open>Driver::~Driver\<close>\<close>

definition Driver_destroy :: "Driver \<Rightarrow> fault + unit" where
  "Driver_destroy d =
     (if factory_count d \<noteq> 0 then Inl (Aborted ''factory reference count is not zero'')
      else Inr ())"

subsection \<open>Projections of the catalogue\<close>

text \<open>
  \<^verbatim>\<open>RemoveSameElements\<close>: \<^verbatim>\<open>std::sort\<close> followed by \<^verbatim>\<open>std::unique\<close> and \<^verbatim>\<open>erase\<close>.
  On strings, which carry nothing but their value, every sorting algorithm returns the one
  ascending arrangement; \<^verbatim>\<open>std::unique\<close> keeps the first of every run of equal
  neighbours.
\<close>

definition RemoveSameElements :: "string list \<Rightarrow> string list" where
  "RemoveSameElements driver_list = remdups_adj (sort driver_list)"

definition GetDriverClassList :: "Driver list \<Rightarrow> string list" where
  "GetDriverClassList drivers_list =
     RemoveSameElements (map (\<lambda>driver. driver_class (desc driver)) drivers_list)"

definition GetDriverTypeList :: "Driver list \<Rightarrow> string \<Rightarrow> string list" where
  "GetDriverTypeList drivers_list cls =
     RemoveSameElements
       (map (\<lambda>driver. driver_type (desc driver))
          (filter (\<lambda>driver. driver_class (desc driver) = cls) drivers_list))"

definition GetDriverNameList :: "Driver list \<Rightarrow> string \<Rightarrow> string \<Rightarrow> string list" where
  "GetDriverNameList drivers_list cls typ =
     RemoveSameElements
       (map (\<lambda>driver. driver_name (desc driver))
          (filter (\<lambda>driver. driver_class (desc driver) = cls \<and> driver_type (desc driver) = typ)
             drivers_list))"

subsection \<open>\<^verbatim>\<open>DriverDesc::CheckVersion\<close> and \<^verbatim>\<open>DriverDesc::SetVersion\<close>\<close>

text \<open>\<^verbatim>\<open>::isdigit\<close> in the C locale: the ten ASCII decimal digits.\<close>

definition isdigit :: "char \<Rightarrow> bool" where
  "isdigit c = (CHR ''0'' \<le> c \<and> c \<le> CHR ''9'')"

text \<open>
  \<^verbatim>\<open>std::getline(iss, temp, split_char)\<close> on the unread rest of the stream. At the end of
  the stream nothing is extracted and the call fails. Otherwise it extracts up to the next
  delimiter, which is consumed and not stored, or up to the end of the stream; the result is
  the token and what is left unread.
\<close>

definition getline :: "string \<Rightarrow> char \<Rightarrow> (string \<times> string) option" where
  "getline iss delim =
     (if iss = [] then None
      else Some (takeWhile (\<lambda>ch. ch \<noteq> delim) iss,
                 drop 1 (dropWhile (\<lambda>ch. ch \<noteq> delim) iss)))"

text \<open>
  The loop \<^verbatim>\<open>while (std::getline(iss, temp, split_char)) version_.emplace_back(temp)\<close>,
  with \<open>versions\<close> for the vector \<^verbatim>\<open>version_\<close>.
\<close>

function getline_loop :: "string \<Rightarrow> char \<Rightarrow> string list \<Rightarrow> string list" where
  "getline_loop iss delim versions =
     (case getline iss delim of
        None \<Rightarrow> versions
      | Some (temp, rest) \<Rightarrow> getline_loop rest delim (versions @ [temp]))"
  by pat_completeness auto
termination
proof (relation "measure (\<lambda>(iss, delim, versions). length iss)")
  fix iss :: string and delim :: char and versions :: "string list"
    and x2 :: "string \<times> string" and temp rest :: string
  assume g: "getline iss delim = Some x2" and x2: "(temp, rest) = x2"
  from g x2 have ne: "iss \<noteq> []" and r: "rest = drop 1 (dropWhile (\<lambda>ch. ch \<noteq> delim) iss)"
    by (auto simp: getline_def split: if_splits)
  have "length (dropWhile (\<lambda>ch. ch \<noteq> delim) iss) \<le> length iss"
    by (rule length_dropWhile_le)
  with ne r have "length rest < length iss"
    by (cases iss) auto
  then show "((rest, delim, versions @ [temp]), (iss, delim, versions))
       \<in> measure (\<lambda>(iss, delim, versions). length iss)"
    by simp
qed simp

declare getline_loop.simps [simp del]

definition CheckVersion :: "string \<Rightarrow> Status" where
  "CheckVersion version =
     (if CHR ''.'' \<notin> set version then (STATUS_BADCONF, ''version is invalid'')
      else let versions = getline_loop version (CHR ''.'') [] in
        if length versions \<noteq> 3 then (STATUS_BADCONF, ''version is invalid'')
        else if list_all (\<lambda>item_version. list_all isdigit item_version) versions
        then (STATUS_SUCCESS, [])
        else (STATUS_BADCONF, ''version is invalid''))"

definition SetVersion :: "DriverDesc \<Rightarrow> string \<Rightarrow> Status \<times> DriverDesc" where
  "SetVersion d version =
     (if version = [] then ((STATUS_SUCCESS, []), d)
      else let status = CheckVersion version in
        if fst status \<noteq> STATUS_SUCCESS then (status, d)
        else ((STATUS_SUCCESS, []), d\<lparr>driver_version := version\<rparr>))"

subsection \<open>\<^verbatim>\<open>Drivers::GetDriver\<close>\<close>

text \<open>
  The scan over \<^verbatim>\<open>drivers_list_\<close>, with \<^verbatim>\<open>temp_driver\<close> as the loop's accumulator
  (\<open>None\<close> is the null pointer). An exact version match returns at once.
\<close>

fun GetDriver_loop ::
  "Driver list \<Rightarrow> string \<Rightarrow> string \<Rightarrow> string \<Rightarrow> string \<Rightarrow> Driver option \<Rightarrow> Driver option" where
  "GetDriver_loop [] cls typ nm ver temp_driver = temp_driver"
| "GetDriver_loop (driver # rest) cls typ nm ver temp_driver =
     (if driver_class (desc driver) \<noteq> cls \<or> driver_type (desc driver) \<noteq> typ
         \<or> driver_name (desc driver) \<noteq> nm
      then GetDriver_loop rest cls typ nm ver temp_driver
      else if driver_version (desc driver) = ver then Some driver
      else (case temp_driver of
              None \<Rightarrow> GetDriver_loop rest cls typ nm ver (Some driver)
            | Some t \<Rightarrow>
                if driver_version (desc t) < driver_version (desc driver)
                then GetDriver_loop rest cls typ nm ver (Some driver)
                else GetDriver_loop rest cls typ nm ver temp_driver))"

definition GetDriver ::
  "Driver list \<Rightarrow> string \<Rightarrow> string \<Rightarrow> string \<Rightarrow> string \<Rightarrow> Driver option" where
  "GetDriver drivers_list cls typ nm ver = GetDriver_loop drivers_list cls typ nm ver None"

text \<open>A driver's descriptor has the identity \<open>(class, type, name)\<close> asked for.\<close>

definition same_identity :: "string \<Rightarrow> string \<Rightarrow> string \<Rightarrow> Driver \<Rightarrow> bool" where
  "same_identity cls typ nm driver =
     (driver_class (desc driver) = cls \<and> driver_type (desc driver) = typ
      \<and> driver_name (desc driver) = nm)"

text \<open>A driver as \<^verbatim>\<open>Add\<close> or the cache would register it, with the given identity and version.\<close>

definition driver_of :: "string \<Rightarrow> string \<Rightarrow> string \<Rightarrow> string \<Rightarrow> Driver" where
  "driver_of cls typ nm ver =
     new_Driver\<lparr>desc := new_DriverDesc
       \<lparr>driver_class := cls, driver_type := typ, driver_name := nm, driver_version := ver\<rparr>\<rparr>"

subsection \<open>The handle table: \<^verbatim>\<open>DriverHandlerInfo\<close> and \<^verbatim>\<open>DriverHandler\<close>\<close>

record DriverHandlerInfo =
  initialize_count :: int
  handler_count :: int

definition new_DriverHandlerInfo :: DriverHandlerInfo where
  "new_DriverHandlerInfo = \<lparr>initialize_count = 0, handler_count = 0\<rparr>"

text \<open>
  Modelled from the spec: \<^verbatim>\<open>DriverHandlerInfo::IncHanderRefcnt\<close> and
  \<^verbatim>\<open>DecHanderRefcnt\<close> are defined in \<^verbatim>\<open>driver.h\<close>, which is not among the sources. The
  spec's handle table increments the entry's count on acquire and decrements it on release,
  and \<^verbatim>\<open>Remove\<close> below reads the decremented count from the call's result.
\<close>

definition IncHanderRefcnt :: "DriverHandlerInfo \<Rightarrow> DriverHandlerInfo" where
  "IncHanderRefcnt info = info\<lparr>handler_count := handler_count info + 1\<rparr>"

definition DecHanderRefcnt :: "DriverHandlerInfo \<Rightarrow> DriverHandlerInfo" where
  "DecHanderRefcnt info = info\<lparr>handler_count := handler_count info - 1\<rparr>"

text \<open>
  \<^verbatim>\<open>handler_map\<close> maps a handle to a shared \<^verbatim>\<open>DriverHandlerInfo\<close>. Every pointer to an
  info that the code holds was taken from the map, so a write through the pointer is a
  write to the map's entry; \<open>None\<close> is \<^verbatim>\<open>handler_map.end()\<close>, and the null pointer.
\<close>

type_synonym handler_table = "handle \<Rightarrow> DriverHandlerInfo option"

definition DriverHandler_Get :: "handler_table \<Rightarrow> handle \<Rightarrow> DriverHandlerInfo option" where
  "DriverHandler_Get hm hnd = hm hnd"

definition DriverHandler_Add ::
  "handler_table \<Rightarrow> handle \<Rightarrow> DriverHandlerInfo \<times> handler_table" where
  "DriverHandler_Add hm hnd =
     (case DriverHandler_Get hm hnd of
        None \<Rightarrow>
          (let driver_handler_info = IncHanderRefcnt new_DriverHandlerInfo
           in (driver_handler_info, hm(hnd \<mapsto> driver_handler_info)))
      | Some info \<Rightarrow>
          (let driver_handler_info = IncHanderRefcnt info
           in (driver_handler_info, hm(hnd \<mapsto> driver_handler_info))))"

text \<open>\<^verbatim>\<open>Remove\<close> calls \<^verbatim>\<open>DecHanderRefcnt\<close> on what \<^verbatim>\<open>Get\<close> returned, with no null test.\<close>

definition DriverHandler_Remove :: "handler_table \<Rightarrow> handle \<Rightarrow> fault + (StatusCode \<times> handler_table)" where
  "DriverHandler_Remove hm hnd =
     (case DriverHandler_Get hm hnd of
        None \<Rightarrow> Inl NullDereference
      | Some info \<Rightarrow>
          (let driver_handler_info = DecHanderRefcnt info;
               cnt = handler_count driver_handler_info
           in if cnt = 0 then Inr (STATUS_SUCCESS, hm(hnd := None))
              else Inr (STATUS_SUCCESS, hm(hnd \<mapsto> driver_handler_info))))"

subsection \<open>The dynamic loader and the process state\<close>

datatype rtld_flag =
  RTLD_LAZY | RTLD_NOW | RTLD_NODELETE | RTLD_DEEPBIND | RTLD_GLOBAL | RTLD_LOCAL

text \<open>
  \<^verbatim>\<open>Driver::GetMode\<close>. A mode is the set of flags or-ed together; \<^verbatim>\<open>RTLD_DEEPBIND\<close> is
  taken as defined by the platform.
\<close>

definition GetMode :: "bool \<Rightarrow> bool \<Rightarrow> bool \<Rightarrow> rtld_flag set" where
  "GetMode no_delete glob deep =
     (let mode = {RTLD_NOW};
          mode = (if no_delete then mode \<union> {RTLD_NODELETE} else mode);
          mode = (if deep then mode \<union> {RTLD_DEEPBIND} else mode)
      in if glob then mode \<union> {RTLD_GLOBAL} else mode \<union> {RTLD_LOCAL})"

text \<open>The calls into the loader and into the plugin, in the order they happen.\<close>

datatype event =
  Dlopen string "rtld_flag set"
  | Dlclose handle
  | Call_DriverInit handle
  | Call_DriverFini handle
  | Call_CreateDriverFactory handle
  | Call_DriverDescription handle

text \<open>
  What the loader and the plugin answer during one call of \<^verbatim>\<open>CreateFactory\<close> or
  \<^verbatim>\<open>CloseFactory\<close>: the handle \<^verbatim>\<open>dlopen\<close> returns for the driver's file (\<open>None\<close> is
  the null handle), the text of \<^verbatim>\<open>dlerror\<close>, and for each symbol whether \<^verbatim>\<open>dlsym\<close> finds
  it (\<open>None\<close> when it does not) and what the function returns when called.
\<close>

record library =
  dlopen_result :: "handle option"
  dlerror_result :: "string option"
  sym_DriverInit :: "StatusCode option"
  sym_CreateDriverFactory :: "factory_ref option option"
  sym_DriverFini :: bool

record process =
  handler_map :: handler_table
  StatusError :: Status
  events :: "event list"

definition emit :: "event \<Rightarrow> process \<Rightarrow> process" where
  "emit e p = p\<lparr>events := events p @ [e]\<rparr>"

definition dl_errmsg :: "library \<Rightarrow> string" where
  "dl_errmsg lib = (case dlerror_result lib of None \<Rightarrow> ''no error msg'' | Some msg \<Rightarrow> msg)"

definition GetDriverFile :: "Driver \<Rightarrow> string" where
  "GetDriverFile d = driver_file_path (desc d)"

subsection \<open>\<^verbatim>\<open>Driver::CloseFactory\<close>\<close>

text \<open>
  The tail of \<^verbatim>\<open>CloseFactory\<close>: clear the factory slot, close the handle, forget it.
\<close>

definition CloseFactory_finish :: "handle \<Rightarrow> Driver \<Rightarrow> process \<Rightarrow> Driver \<times> process" where
  "CloseFactory_finish h d p =
     (d\<lparr>factory := None, driver_handler := None\<rparr>, emit (Dlclose h) p)"

text \<open>
  After the lookup the code logs a null \<^verbatim>\<open>driver_handler_info\<close> and goes on to lock
  \<^verbatim>\<open>driver_handler_info->initialize_lock_\<close>: the null case ends in the dereference.
\<close>

definition CloseFactory :: "library \<Rightarrow> Driver \<Rightarrow> process \<Rightarrow> fault + (Driver \<times> process)" where
  "CloseFactory lib d0 p =
     (let d = d0\<lparr>factory_count := factory_count d0 - 1\<rparr> in
      if factory_count d > 0 then Inr (d, p)
      else case driver_handler d of
        None \<Rightarrow> Inr (d\<lparr>factory := None\<rparr>, p)
      | Some h \<Rightarrow>
          (case DriverHandler_Get (handler_map p) h of
             None \<Rightarrow> Inl NullDereference
           | Some info \<Rightarrow>
               (let no_delete = driver_no_delete (desc d);
                    info1 = info\<lparr>initialize_count := initialize_count info - 1\<rparr>;
                    p1 = p\<lparr>handler_map := (handler_map p)(h \<mapsto> info1)\<rparr>
                in if initialize_count info1 = 0 then
                     (if \<not> no_delete then
                        (let p2 = (if sym_DriverFini lib then emit (Call_DriverFini h) p1 else p1)
                         in case DriverHandler_Remove (handler_map p2) h of
                              Inl f \<Rightarrow> Inl f
                            | Inr (st, hm) \<Rightarrow>
                                Inr (CloseFactory_finish h d (p2\<lparr>handler_map := hm\<rparr>)))
                      else
                        Inr (CloseFactory_finish h d
                          (p1\<lparr>handler_map := (handler_map p1)
                             (h \<mapsto> info1\<lparr>initialize_count := initialize_count info1 + 1\<rparr>)\<rparr>)))
                   else Inr (CloseFactory_finish h d p1))))"

subsection \<open>\<^verbatim>\<open>Driver::CreateFactory\<close>\<close>

text \<open>Every failure path: \<^verbatim>\<open>CloseFactory(); return nullptr;\<close>\<close>

definition CreateFactory_abort ::
  "library \<Rightarrow> Driver \<Rightarrow> process \<Rightarrow> fault + (factory_ref option \<times> Driver \<times> process)" where
  "CreateFactory_abort lib d p =
     (case CloseFactory lib d p of
        Inl f \<Rightarrow> Inl f
      | Inr (d', p') \<Rightarrow> Inr (None, d', p'))"

text \<open>From the \<^verbatim>\<open>dlsym\<close> of \<^verbatim>\<open>CreateDriverFactory\<close> to the end of the first-use branch.\<close>

definition CreateFactory_build ::
  "library \<Rightarrow> handle \<Rightarrow> Driver \<Rightarrow> process \<Rightarrow> fault + (factory_ref option \<times> Driver \<times> process)" where
  "CreateFactory_build lib h d p =
     (case sym_CreateDriverFactory lib of
        None \<Rightarrow>
          CreateFactory_abort lib d
            (p\<lparr>StatusError := (STATUS_INVALID,
                 ''failed to dlsym function DriverDescription in file: '' @ GetDriverFile d
                 @ '', error: ''
                 @ (case dlerror_result lib of None \<Rightarrow> ''no error msg.'' | Some msg \<Rightarrow> msg))\<rparr>)
      | Some made \<Rightarrow>
          (let d1 = d\<lparr>factory := made\<rparr>;
               p1 = emit (Call_CreateDriverFactory h) p
           in if made = None then
                CreateFactory_abort lib d1
                  (p1\<lparr>StatusError := (STATUS_FAULT,
                       ''create driver failed, driver:'' @ GetDriverFile d)\<rparr>)
              else Inr (factory d1, d1, p1)))"

text \<open>
  \<^verbatim>\<open>CreateFactory\<close> returns the shared view of \<^verbatim>\<open>factory_\<close> (\<open>None\<close> is the null
  pointer) with the driver and the process as it leaves them. \<^verbatim>\<open>handler_info\<close> is the
  entry of the handle in \<^verbatim>\<open>handler_map\<close>.
\<close>

definition CreateFactory ::
  "library \<Rightarrow> Driver \<Rightarrow> process \<Rightarrow> fault + (factory_ref option \<times> Driver \<times> process)" where
  "CreateFactory lib d0 p0 =
     (let d = d0\<lparr>factory_count := factory_count d0 + 1\<rparr> in
      if factory_count d = 1 then
        (let mode = GetMode (driver_no_delete (desc d)) (global (desc d)) (deep_bind (desc d));
             p1 = emit (Dlopen (GetDriverFile d) mode) p0
         in case dlopen_result lib of
              None \<Rightarrow>
                CreateFactory_abort lib (d\<lparr>driver_handler := None\<rparr>)
                  (p1\<lparr>StatusError := (STATUS_INVALID,
                       ''dlopen '' @ GetDriverFile d @ '' failed, error: '' @ dl_errmsg lib)\<rparr>)
            | Some h \<Rightarrow>
                (let d1 = d\<lparr>driver_handler := Some h\<rparr>;
                     (handler_info, hm) = DriverHandler_Add (handler_map p1) h;
                     info1 = handler_info\<lparr>initialize_count := initialize_count handler_info + 1\<rparr>;
                     info0 = info1\<lparr>initialize_count := initialize_count info1 - 1\<rparr>;
                     p2 = p1\<lparr>handler_map := hm(h \<mapsto> info1)\<rparr>
                 in if initialize_count info1 = 1 then
                      (case sym_DriverInit lib of
                         None \<Rightarrow>
                           CreateFactory_abort lib d1
                             (p2\<lparr>handler_map := (handler_map p2)(h \<mapsto> info0),
                                 StatusError := (STATUS_INVALID,
                                   ''failed to dlsym function DriverInit in file: ''
                                   @ GetDriverFile d @ '', error: '' @ dl_errmsg lib)\<rparr>)
                       | Some init \<Rightarrow>
                           (let p3 = emit (Call_DriverInit h) p2
                            in if init \<noteq> STATUS_OK then
                                 CreateFactory_abort lib d1
                                   (p3\<lparr>handler_map := (handler_map p3)(h \<mapsto> info0),
                                       StatusError := (init,
                                         ''driver init failed, driver:'' @ GetDriverFile d)\<rparr>)
                               else CreateFactory_build lib h d1 p3))
                    else CreateFactory_build lib h d1 p2))
      else Inr (factory d, d, p0))"

text \<open>
  A process that has loaded nothing yet, and a plugin library that loads at a given handle,
  exports all four entry points and hands out one factory.
\<close>

definition initial_process :: process where
  "initial_process =
     \<lparr>handler_map = (\<lambda>h. None), StatusError = (STATUS_SUCCESS, []), events = []\<rparr>"

definition plugin_library :: "handle \<Rightarrow> StatusCode option \<Rightarrow> library" where
  "plugin_library h init =
     \<lparr>dlopen_result = Some h, dlerror_result = None, sym_DriverInit = init,
      sym_CreateDriverFactory = Some (Some 1), sym_DriverFini = True\<rparr>"

subsection \<open>The registry: \<^verbatim>\<open>Drivers::DriversContains\<close> and \<^verbatim>\<open>Drivers::Add\<close>\<close>

text \<open>
  The registry's fields. \<^verbatim>\<open>load_failed_info\<close> is a \<^verbatim>\<open>std::map\<close>: the list holds its
  entries in the order the map iterates them.
\<close>

record Drivers =
  drivers_list :: "Driver list"
  driver_dirs :: "string list"
  last_modify_time_sum :: int
  load_success_info :: "string list"
  load_failed_info :: "(string \<times> string) list"

definition new_Drivers :: Drivers where
  "new_Drivers =
     \<lparr>drivers_list = [], driver_dirs = [], last_modify_time_sum = 0, load_success_info = [],
      load_failed_info = []\<rparr>"

fun DriversContains :: "Driver list \<Rightarrow> Driver \<Rightarrow> bool" where
  "DriversContains [] driver = False"
| "DriversContains (driver_item # rest) driver =
     (if driver_class (desc driver_item) \<noteq> driver_class (desc driver)
        then DriversContains rest driver
      else if driver_type (desc driver_item) \<noteq> driver_type (desc driver)
        then DriversContains rest driver
      else if driver_name (desc driver_item) \<noteq> driver_name (desc driver)
        then DriversContains rest driver
      else if driver_description (desc driver_item) \<noteq> driver_description (desc driver)
        then DriversContains rest driver
      else if driver_version (desc driver_item) \<noteq> driver_version (desc driver)
        then DriversContains rest driver
      else True)"

text \<open>
  What the loader answers while \<^verbatim>\<open>Add\<close> inspects one file: the handle of the lazy local
  \<^verbatim>\<open>dlopen\<close>, the text of \<^verbatim>\<open>dlerror\<close>, the exported \<^verbatim>\<open>DriverDescription\<close> as the
  change it makes to the descriptor it is handed (\<open>None\<close> when \<^verbatim>\<open>dlsym\<close> does not find
  it), and the handle of the second \<^verbatim>\<open>dlopen\<close> with \<^verbatim>\<open>RTLD_NODELETE\<close>.
\<close>

record scanned_library =
  lazy_dlopen_result :: "handle option"
  lazy_dlerror_result :: "string option"
  sym_DriverDescription :: "(DriverDesc \<Rightarrow> DriverDesc) option"
  nodelete_dlopen_result :: "handle option"

definition errmsg_tail :: "scanned_library \<Rightarrow> string" where
  "errmsg_tail lib =
     (case lazy_dlerror_result lib of None \<Rightarrow> ''no error msg.'' | Some msg \<Rightarrow> msg)"

text \<open>\<^verbatim>\<open>Add\<close> returns its status, the registry, and the loader calls it made.\<close>

definition Drivers_Add ::
  "scanned_library \<Rightarrow> Drivers \<Rightarrow> string \<Rightarrow> Status \<times> Drivers \<times> event list" where
  "Drivers_Add lib ds file =
     (case lazy_dlopen_result lib of
        None \<Rightarrow>
          ((STATUS_INVALID, file @ '' : dlopen failed, '' @ errmsg_tail lib), ds,
           [Dlopen file {RTLD_LAZY, RTLD_LOCAL}])
      | Some h \<Rightarrow>
          (case sym_DriverDescription lib of
             None \<Rightarrow>
               ((STATUS_NOTSUPPORT,
                 file @ '' : dlsym DriverDescription failed, '' @ errmsg_tail lib), ds,
                [Dlopen file {RTLD_LAZY, RTLD_LOCAL}, Dlclose h])
           | Some driver_func \<Rightarrow>
               (let driver = new_Driver\<lparr>desc := driver_func (desc new_Driver)\<rparr>
                in if DriversContains (drivers_list ds) driver then
                     ((STATUS_EXIST, file @ '' : driver is already registered.''), ds,
                      [Dlopen file {RTLD_LAZY, RTLD_LOCAL}, Call_DriverDescription h,
                       Dlclose h])
                   else
                     (let driver = driver\<lparr>desc := (desc driver)\<lparr>driver_file_path := file\<rparr>\<rparr>;
                          pin =
                            (if driver_no_delete (desc driver) then
                               Dlopen file {RTLD_LAZY, RTLD_LOCAL, RTLD_NODELETE}
                               # (case nodelete_dlopen_result lib of
                                    None \<Rightarrow> []
                                  | Some h2 \<Rightarrow> [Dlclose h2])
                             else [])
                      in ((STATUS_OK, []),
                          ds\<lparr>drivers_list := drivers_list ds @ [driver]\<rparr>,
                          [Dlopen file {RTLD_LAZY, RTLD_LOCAL}, Call_DriverDescription h]
                          @ pin @ [Dlclose h])))))"

text \<open>Two drivers agree on \<open>(class, type, name, description, version)\<close>.\<close>

definition same_descriptor :: "Driver \<Rightarrow> Driver \<Rightarrow> bool" where
  "same_descriptor a b =
     (driver_class (desc a) = driver_class (desc b)
      \<and> driver_type (desc a) = driver_type (desc b)
      \<and> driver_name (desc a) = driver_name (desc b)
      \<and> driver_description (desc a) = driver_description (desc b)
      \<and> driver_version (desc a) = driver_version (desc b))"

subsection \<open>The scan cache: \<^verbatim>\<open>WriteScanInfo\<close> and \<^verbatim>\<open>GatherScanInfo\<close>\<close>

text \<open>
  The cache file is a JSON object; the model keeps the document and leaves the text
  encoding to the JSON library. An element of \<^verbatim>\<open>scan_drivers\<close> is a loaded driver with
  its nine fields (\<^verbatim>\<open>load_success\<close> true) or a failed file with its message
  (\<^verbatim>\<open>load_success\<close> false).
\<close>

datatype scan_driver =
  Loaded (js_class: string) (js_type: string) (js_name: string) (js_description: string)
    (js_version: string) (js_file_path: string) (js_no_delete: bool) (js_global: bool)
    (js_deep_bind: bool)
  | Failed (js_file_path: string) (js_err_msg: string)

record scan_info =
  ld_cache_time :: int
  check_code :: string
  version_record :: string
  scan_drivers :: "scan_driver list"

definition dump_driver :: "Driver \<Rightarrow> scan_driver" where
  "dump_driver driver =
     Loaded (driver_class (desc driver)) (driver_type (desc driver)) (driver_name (desc driver))
       (driver_description (desc driver)) (driver_version (desc driver))
       (driver_file_path (desc driver)) (driver_no_delete (desc driver)) (global (desc driver))
       (deep_bind (desc driver))"

text \<open>
  \<^verbatim>\<open>WriteScanInfo\<close>, given whether the file opens for writing, the modification time of
  the linker cache (\<open>None\<close> when \<^verbatim>\<open>stat\<close> fails) and the text of the current time. It
  returns the status and the document written.
\<close>

definition WriteScanInfo ::
  "bool \<Rightarrow> int option \<Rightarrow> string \<Rightarrow> Drivers \<Rightarrow> string \<Rightarrow> string \<Rightarrow> Status \<times> scan_info option" where
  "WriteScanInfo is_open ld_cache_mtime now ds scan_info_path code =
     (if \<not> is_open then
        ((STATUS_FAULT, ''Open file '' @ scan_info_path @ '' for write failed''), None)
      else
        ((STATUS_OK, []),
         Some \<lparr>ld_cache_time = (case ld_cache_mtime of None \<Rightarrow> 0 | Some t \<Rightarrow> t),
               check_code = code,
               version_record = now,
               scan_drivers = map dump_driver (drivers_list ds)
                 @ map (\<lambda>fail_info. Failed (fst fail_info) (snd fail_info))
                     (load_failed_info ds)\<rparr>))"

text \<open>
  The loop of \<^verbatim>\<open>GatherScanInfo\<close> over \<^verbatim>\<open>scan_drivers\<close>. The status \<^verbatim>\<open>SetVersion\<close>
  returns is dropped, and the rebuilt driver is appended when \<^verbatim>\<open>GetDriver\<close> finds none.
\<close>

fun GatherScanInfo_loop :: "scan_driver list \<Rightarrow> Driver list \<Rightarrow> Driver list" where
  "GatherScanInfo_loop [] dl = dl"
| "GatherScanInfo_loop (Failed file_path err_msg # rest) dl = GatherScanInfo_loop rest dl"
| "GatherScanInfo_loop (Loaded cls typ nm description ver file_path no_delete glob deep # rest) dl =
     (let dsc = (desc new_Driver)\<lparr>driver_class := cls, driver_type := typ, driver_name := nm,
                  driver_description := description\<rparr>;
          dsc = snd (SetVersion dsc ver);
          dsc = dsc\<lparr>driver_file_path := file_path, driver_no_delete := no_delete,
                  global := glob, deep_bind := deep\<rparr>;
          driver = new_Driver\<lparr>desc := dsc\<rparr>
      in case GetDriver dl cls typ nm ver of
           None \<Rightarrow> GatherScanInfo_loop rest (dl @ [driver])
         | Some tmp_driver \<Rightarrow> GatherScanInfo_loop rest dl)"

text \<open>\<^verbatim>\<open>GatherScanInfo\<close> on the document read; \<open>None\<close> when the file does not open.\<close>

definition GatherScanInfo :: "scan_info option \<Rightarrow> Drivers \<Rightarrow> StatusCode \<times> Drivers" where
  "GatherScanInfo scan_info_file ds =
     (case scan_info_file of
        None \<Rightarrow> (STATUS_FAULT, ds)
      | Some dump_json \<Rightarrow>
          (STATUS_OK,
           ds\<lparr>drivers_list := GatherScanInfo_loop (scan_drivers dump_json) (drivers_list ds)\<rparr>))"

text \<open>The descriptors of a list as \<open>(class, type, name, version, description)\<close> tuples.\<close>

definition descriptor_tuples ::
  "Driver list \<Rightarrow> (string \<times> string \<times> string \<times> string \<times> string) set" where
  "descriptor_tuples dl =
     set (map (\<lambda>driver. (driver_class (desc driver), driver_type (desc driver),
                 driver_name (desc driver), driver_version (desc driver),
                 driver_description (desc driver))) dl)"

text \<open>
  A plugin file of class \<^verbatim>\<open>cpu\<close>, type \<^verbatim>\<open>x\<close>, name \<^verbatim>\<open>foo\<close> whose
  \<^verbatim>\<open>DriverDescription\<close> sets these and the given version through the setters.
\<close>

definition foo_plugin :: "string \<Rightarrow> scanned_library" where
  "foo_plugin ver =
     \<lparr>lazy_dlopen_result = Some 3, lazy_dlerror_result = None,
      sym_DriverDescription =
        Some (\<lambda>d. snd (SetVersion
                (d\<lparr>driver_class := ''cpu'', driver_type := ''x'', driver_name := ''foo''\<rparr>) ver)),
      nodelete_dlopen_result = None\<rparr>"

definition foo_driver :: "string \<Rightarrow> string \<Rightarrow> Driver" where
  "foo_driver ver file =
     new_Driver\<lparr>desc := new_DriverDesc
       \<lparr>driver_class := ''cpu'', driver_type := ''x'', driver_name := ''foo'',
        driver_version := ver, driver_file_path := file\<rparr>\<rparr>"

subsection \<open>Validating the cache: \<^verbatim>\<open>FillCheckInfo\<close> and \<^verbatim>\<open>CheckPathAndMagicCode\<close>\<close>

text \<open>
  What \<^verbatim>\<open>stat\<close> and \<^verbatim>\<open>lstat\<close> report of a path: whether \<^verbatim>\<open>S_ISDIR\<close> or \<^verbatim>\<open>S_ISLNK\<close>
  holds of its mode, and \<^verbatim>\<open>st_mtim.tv_sec\<close>. \<open>None\<close> is the failed call. Times are
  \<^typ>\<open>int\<close>: the sums of modification times stay far inside 64 bits.
\<close>

datatype file_kind = IsDirectory | IsSymlink | IsOther

record stat_buf =
  st_kind :: file_kind
  st_mtime_sec :: int

text \<open>
  \<^verbatim>\<open>ListFiles\<close> comes from the file utilities, which are not among the sources; it is a
  part of the file system here, giving its status and the paths it found.
\<close>

record filesystem =
  fs_stat :: "string \<Rightarrow> stat_buf option"
  fs_lstat :: "string \<Rightarrow> stat_buf option"
  fs_ListFiles :: "string \<Rightarrow> string \<Rightarrow> StatusCode \<times> string list"

text \<open>
  The two compile-time paths and the key derivation \<^verbatim>\<open>GenerateKey\<close> are defined
  outside \<^verbatim>\<open>driver.cc\<close>; the functions below take them as given.
\<close>

record externals =
  DEFAULT_SCAN_INFO :: string
  DEFAULT_LD_CACHE :: string
  GenerateKey :: "int \<Rightarrow> string"

fun FillCheckInfo_loop ::
  "scan_driver list \<Rightarrow> (string \<Rightarrow> bool option) \<Rightarrow> (string \<Rightarrow> bool option)" where
  "FillCheckInfo_loop [] file_map = file_map"
| "FillCheckInfo_loop (driver_info # rest) file_map =
     (if file_map (js_file_path driver_info) \<noteq> None then FillCheckInfo_loop rest file_map
      else FillCheckInfo_loop rest (file_map(js_file_path driver_info \<mapsto> True)))"

text \<open>
  \<^verbatim>\<open>FillCheckInfo\<close> on the document in the cache file, its three reference parameters
  returned: the check code, the file map filled from the empty one, the linker-cache time.
\<close>

definition FillCheckInfo :: "scan_info \<Rightarrow> string \<times> (string \<Rightarrow> bool option) \<times> int" where
  "FillCheckInfo dump_json =
     (check_code dump_json, FillCheckInfo_loop (scan_drivers dump_json) (\<lambda>f. None),
      ld_cache_time dump_json)"

text \<open>
  The inner loop over the files listed in one directory; \<open>None\<close> is the \<^verbatim>\<open>return false\<close>,
  otherwise the running \<^verbatim>\<open>check_sum\<close>.
\<close>

fun check_driver_files ::
  "filesystem \<Rightarrow> (string \<Rightarrow> bool option) \<Rightarrow> string list \<Rightarrow> int \<Rightarrow> int option" where
  "check_driver_files fs file_map [] check_sum = Some check_sum"
| "check_driver_files fs file_map (driver_file # rest) check_sum =
     (case fs_lstat fs driver_file of
        None \<Rightarrow> check_driver_files fs file_map rest check_sum
      | Some buf \<Rightarrow>
          if st_kind buf = IsSymlink then check_driver_files fs file_map rest check_sum
          else if file_map driver_file = None then None
          else check_driver_files fs file_map rest (check_sum + st_mtime_sec buf))"

text \<open>The outer loop over \<^verbatim>\<open>driver_dirs_\<close>.\<close>

fun check_driver_dirs ::
  "filesystem \<Rightarrow> (string \<Rightarrow> bool option) \<Rightarrow> string list \<Rightarrow> int \<Rightarrow> int option" where
  "check_driver_dirs fs file_map [] check_sum = Some check_sum"
| "check_driver_dirs fs file_map (dir # rest) check_sum =
     (case fs_lstat fs dir of
        None \<Rightarrow> None
      | Some s \<Rightarrow>
          if st_kind s \<noteq> IsDirectory
          then check_driver_dirs fs file_map rest (check_sum + st_mtime_sec s)
          else (case fs_ListFiles fs dir ''libmodelbox-*.so*'' of
                  (status, files) \<Rightarrow>
                    if status \<noteq> STATUS_OK then None
                    else if files = [] then check_driver_dirs fs file_map rest check_sum
                    else (case check_driver_files fs file_map files check_sum of
                            None \<Rightarrow> None
                          | Some check_sum' \<Rightarrow>
                              check_driver_dirs fs file_map rest check_sum')))"

definition CheckPathAndMagicCode ::
  "externals \<Rightarrow> filesystem \<Rightarrow> scan_info \<Rightarrow> string list \<Rightarrow> bool" where
  "CheckPathAndMagicCode ext fs dump_json dirs =
     (case fs_stat fs (DEFAULT_SCAN_INFO ext) of
        None \<Rightarrow> False
      | Some b0 \<Rightarrow>
          (case fs_stat fs (DEFAULT_LD_CACHE ext) of
             None \<Rightarrow> False
           | Some buffer \<Rightarrow>
               (case FillCheckInfo dump_json of
                  (file_check_node, file_map, cache_time) \<Rightarrow>
                    if cache_time \<noteq> st_mtime_sec buffer then False
                    else (case check_driver_dirs fs file_map dirs 0 of
                            None \<Rightarrow> False
                          | Some check_sum \<Rightarrow>
                              if file_check_node \<noteq> GenerateKey ext check_sum then False
                              else True))))"

text \<open>
  The terms of the validity predicate. The cached file set is the set of
  \<^verbatim>\<open>file_path\<close> values of the cached entries. The scanned files of a configured
  directory are the listed paths that \<^verbatim>\<open>lstat\<close> can read and that are not symbolic links;
  a configured path that is not a directory contributes its own modification time and no
  file. A configured path is readable when \<^verbatim>\<open>lstat\<close> succeeds on it and, for a
  directory, the listing succeeds.
\<close>

definition cached_files :: "scan_info \<Rightarrow> string set" where
  "cached_files dump_json = js_file_path ` set (scan_drivers dump_json)"

definition regular_file :: "filesystem \<Rightarrow> string \<Rightarrow> bool" where
  "regular_file fs f =
     (case fs_lstat fs f of None \<Rightarrow> False | Some buf \<Rightarrow> st_kind buf \<noteq> IsSymlink)"

definition mtime_of :: "filesystem \<Rightarrow> string \<Rightarrow> int" where
  "mtime_of fs f = (case fs_lstat fs f of None \<Rightarrow> 0 | Some buf \<Rightarrow> st_mtime_sec buf)"

definition is_directory :: "filesystem \<Rightarrow> string \<Rightarrow> bool" where
  "is_directory fs dir =
     (case fs_lstat fs dir of None \<Rightarrow> False | Some s \<Rightarrow> st_kind s = IsDirectory)"

definition dir_files :: "filesystem \<Rightarrow> string \<Rightarrow> string list" where
  "dir_files fs dir =
     (if is_directory fs dir
      then filter (regular_file fs) (snd (fs_ListFiles fs dir ''libmodelbox-*.so*''))
      else [])"

definition scanned_files :: "filesystem \<Rightarrow> string list \<Rightarrow> string list" where
  "scanned_files fs dirs = concat (map (dir_files fs) dirs)"

definition mtime_total :: "filesystem \<Rightarrow> string list \<Rightarrow> int" where
  "mtime_total fs dirs =
     sum_list (map (\<lambda>dir. if is_directory fs dir
                            then sum_list (map (mtime_of fs) (dir_files fs dir))
                            else mtime_of fs dir) dirs)"

definition dir_readable :: "filesystem \<Rightarrow> string \<Rightarrow> bool" where
  "dir_readable fs dir =
     (fs_lstat fs dir \<noteq> None
      \<and> (if is_directory fs dir then fst (fs_ListFiles fs dir ''libmodelbox-*.so*'') = STATUS_OK
         else True))"

text \<open>
  A file system with one driver directory \<^verbatim>\<open>/d\<close> holding one plugin file, and a key
  derivation that tells all sums apart (the sum in tally marks).
\<close>

definition tally_key :: "int \<Rightarrow> string" where
  "tally_key n = replicate (nat n) (CHR ''I'')"

definition one_dir_externals :: externals where
  "one_dir_externals =
     \<lparr>DEFAULT_SCAN_INFO = ''/tmp/modelbox-driver-info'', DEFAULT_LD_CACHE = ''/etc/ld.so.cache'',
      GenerateKey = tally_key\<rparr>"

definition one_dir_fs :: filesystem where
  "one_dir_fs =
     \<lparr>fs_stat = (\<lambda>path.
         if path = ''/tmp/modelbox-driver-info'' then Some \<lparr>st_kind = IsOther, st_mtime_sec = 9\<rparr>
         else if path = ''/etc/ld.so.cache'' then Some \<lparr>st_kind = IsOther, st_mtime_sec = 5\<rparr>
         else None),
      fs_lstat = (\<lambda>path.
         if path = ''/d'' then Some \<lparr>st_kind = IsDirectory, st_mtime_sec = 8\<rparr>
         else if path = ''/d/libmodelbox-a.so'' then Some \<lparr>st_kind = IsOther, st_mtime_sec = 3\<rparr>
         else None),
      fs_ListFiles = (\<lambda>dir pattern.
         if dir = ''/d'' then (STATUS_OK, [''/d/libmodelbox-a.so'']) else (STATUS_NOTFOUND, []))\<rparr>"

text \<open>
  Two caches whose check code is the key of 3 and whose linker-cache time is 5: one written
  when \<^verbatim>\<open>/d\<close> held the file above alone, one written when it also held a second plugin
  file of modification time 0 that has since been deleted.
\<close>

definition cache_of_one :: scan_info where
  "cache_of_one =
     \<lparr>ld_cache_time = 5, check_code = tally_key 3, version_record = [],
      scan_drivers = [dump_driver (foo_driver ''1.0.0'' ''/d/libmodelbox-a.so'')]\<rparr>"

definition cache_of_two :: scan_info where
  "cache_of_two =
     \<lparr>ld_cache_time = 5, check_code = tally_key 3, version_record = [],
      scan_drivers = [dump_driver (foo_driver ''1.0.0'' ''/d/libmodelbox-a.so''),
                      dump_driver (foo_driver ''2.0.0'' ''/d/libmodelbox-b.so'')]\<rparr>"

section \<open>Properties\<close>

subsection \<open>Destruction\<close>

text \<open>
  Claim C8. Destroying a driver whose factory reference count is not zero aborts the
  process, and destroying a driver whose count is zero never aborts: the destructor ends in
  the abort exactly when the count differs from zero, and returns normally exactly when it
  is zero.
\<close>

theorem Driver_destroy_aborts_iff:
  "(Driver_destroy d = Inl (Aborted ''factory reference count is not zero''))
      = (factory_count d \<noteq> 0)
   \<and> (Driver_destroy d = Inr ()) = (factory_count d = 0)"
  by (simp add: Driver_destroy_def)

subsection \<open>Version strings\<close>

text \<open>
  Claim C5. \<^verbatim>\<open>SetVersion\<close> is to accept a non-empty string exactly when splitting it on
  the dot gives three non-empty components of decimal digits. The code accepts
  \<^verbatim>\<open>"1..2"\<close>, whose components are \<^verbatim>\<open>"1"\<close>, the empty string and \<^verbatim>\<open>"2"\<close>, and
  \<^verbatim>\<open>"1.2.3."\<close>, and stores them as the version; it does leave the field alone on the empty
  string and rejects \<^verbatim>\<open>"1.2"\<close>, \<^verbatim>\<open>"1.2.3.4"\<close> and \<^verbatim>\<open>"1.2.a"\<close> with the
  configuration error.
\<close>

theorem SetVersion_accepts_empty_component:
  "SetVersion d ''1..2'' = ((STATUS_SUCCESS, []), d\<lparr>driver_version := ''1..2''\<rparr>)
   \<and> getline_loop ''1..2'' (CHR ''.'') [] = [''1'', [], ''2'']
   \<and> SetVersion d ''1.2.3.'' = ((STATUS_SUCCESS, []), d\<lparr>driver_version := ''1.2.3.''\<rparr>)
   \<and> SetVersion d [] = ((STATUS_SUCCESS, []), d)
   \<and> SetVersion d ''1.2'' = ((STATUS_BADCONF, ''version is invalid''), d)
   \<and> SetVersion d ''1.2.3.4'' = ((STATUS_BADCONF, ''version is invalid''), d)
   \<and> SetVersion d ''1.2.a'' = ((STATUS_BADCONF, ''version is invalid''), d)
   \<and> SetVersion d ''1.2.3'' = ((STATUS_SUCCESS, []), d\<lparr>driver_version := ''1.2.3''\<rparr>)"
  by (simp add: SetVersion_def CheckVersion_def getline_loop.simps getline_def isdigit_def)

subsection \<open>Looking a driver up\<close>

lemma GetDriver_loop_skip:
  "\<not> same_identity c t n x \<Longrightarrow>
   GetDriver_loop (x # xs) c t n v temp = GetDriver_loop xs c t n v temp"
  by (auto simp: same_identity_def)

lemma GetDriver_loop_hit:
  "same_identity c t n x \<Longrightarrow> driver_version (desc x) = v \<Longrightarrow>
   GetDriver_loop (x # xs) c t n v temp = Some x"
  by (auto simp: same_identity_def)

lemma GetDriver_loop_first:
  "same_identity c t n x \<Longrightarrow> driver_version (desc x) \<noteq> v \<Longrightarrow>
   GetDriver_loop (x # xs) c t n v None = GetDriver_loop xs c t n v (Some x)"
  by (auto simp: same_identity_def)

lemma GetDriver_loop_replace:
  "same_identity c t n x \<Longrightarrow> driver_version (desc x) \<noteq> v \<Longrightarrow>
   driver_version (desc t0) < driver_version (desc x) \<Longrightarrow>
   GetDriver_loop (x # xs) c t n v (Some t0) = GetDriver_loop xs c t n v (Some x)"
  by (auto simp: same_identity_def)

lemma GetDriver_loop_keep:
  "same_identity c t n x \<Longrightarrow> driver_version (desc x) \<noteq> v \<Longrightarrow>
   \<not> driver_version (desc t0) < driver_version (desc x) \<Longrightarrow>
   GetDriver_loop (x # xs) c t n v (Some t0) = GetDriver_loop xs c t n v (Some t0)"
  by (auto simp: same_identity_def)

lemma GetDriver_loop_no_match:
  "\<forall>d\<in>set ds. \<not> same_identity c t n d \<Longrightarrow> GetDriver_loop ds c t n v temp = temp"
  by (induction ds arbitrary: temp) (simp_all add: GetDriver_loop_skip del: GetDriver_loop.simps(2))

lemma GetDriver_loop_exact:
  "\<exists>d\<in>set ds. same_identity c t n d \<and> driver_version (desc d) = v \<Longrightarrow>
   \<exists>pre r post. ds = pre @ r # post \<and> GetDriver_loop ds c t n v temp = Some r
      \<and> same_identity c t n r \<and> driver_version (desc r) = v
      \<and> (\<forall>d\<in>set pre. \<not> (same_identity c t n d \<and> driver_version (desc d) = v))"
proof (induction ds arbitrary: temp)
  case Nil
  then show ?case by simp
next
  case (Cons x xs)
  show ?case
  proof (cases "same_identity c t n x \<and> driver_version (desc x) = v")
    case True
    then have "GetDriver_loop (x # xs) c t n v temp = Some x"
      by (simp add: GetDriver_loop_hit del: GetDriver_loop.simps(2))
    with True show ?thesis by (intro exI[of _ "[]"] exI[of _ x] exI[of _ xs]) simp
  next
    case False
    with Cons.prems have ex: "\<exists>d\<in>set xs. same_identity c t n d \<and> driver_version (desc d) = v"
      by auto
    have "\<exists>temp'. GetDriver_loop (x # xs) c t n v temp = GetDriver_loop xs c t n v temp'"
    proof (cases "same_identity c t n x")
      case nm: False
      then show ?thesis using GetDriver_loop_skip by blast
    next
      case m: True
      with False have nv: "driver_version (desc x) \<noteq> v" by simp
      show ?thesis
      proof (cases temp)
        case None
        with m nv show ?thesis using GetDriver_loop_first by blast
      next
        case (Some t0)
        with m nv show ?thesis
          using GetDriver_loop_replace GetDriver_loop_keep by blast
      qed
    qed
    then obtain temp' where step:
      "GetDriver_loop (x # xs) c t n v temp = GetDriver_loop xs c t n v temp'" ..
    from Cons.IH[OF ex, of temp'] obtain pre r post where
      h: "xs = pre @ r # post" "GetDriver_loop xs c t n v temp' = Some r"
         "same_identity c t n r" "driver_version (desc r) = v"
         "\<forall>d\<in>set pre. \<not> (same_identity c t n d \<and> driver_version (desc d) = v)"
      by blast
    show ?thesis
      using h step False
      by (intro exI[of _ "x # pre"] exI[of _ r] exI[of _ post]) simp
  qed
qed

lemma GetDriver_loop_running:
  assumes "\<forall>d\<in>set ds. same_identity c t n d \<longrightarrow> driver_version (desc d) \<noteq> v"
  shows "(GetDriver_loop ds c t n v (Some t0) = Some t0
            \<and> (\<forall>d\<in>set ds. same_identity c t n d \<longrightarrow> driver_version (desc d) \<le> driver_version (desc t0)))
         \<or> (\<exists>pre r post. ds = pre @ r # post \<and> GetDriver_loop ds c t n v (Some t0) = Some r
               \<and> same_identity c t n r
               \<and> driver_version (desc t0) < driver_version (desc r)
               \<and> (\<forall>d\<in>set pre. same_identity c t n d \<longrightarrow> driver_version (desc d) < driver_version (desc r))
               \<and> (\<forall>d\<in>set post. same_identity c t n d \<longrightarrow> driver_version (desc d) \<le> driver_version (desc r)))"
    (is "?keep ds t0 \<or> ?swap ds t0")
  using assms
proof (induction ds arbitrary: t0)
  case Nil
  then show ?case by simp
next
  case (Cons x xs)
  from Cons.prems have nx: "\<forall>d\<in>set xs. same_identity c t n d \<longrightarrow> driver_version (desc d) \<noteq> v"
    by simp
  note IH = Cons.IH[OF nx]
  show ?case
  proof (cases "same_identity c t n x")
    case False
    then have step: "GetDriver_loop (x # xs) c t n v (Some t0) = GetDriver_loop xs c t n v (Some t0)"
      by (rule GetDriver_loop_skip)
    from IH[of t0] show ?thesis
    proof
      assume "?keep xs t0"
      with step False have "?keep (x # xs) t0" by simp
      then show ?thesis ..
    next
      assume "?swap xs t0"
      then obtain pre r post where h: "xs = pre @ r # post"
        "GetDriver_loop xs c t n v (Some t0) = Some r" "same_identity c t n r"
        "driver_version (desc t0) < driver_version (desc r)"
        "\<forall>d\<in>set pre. same_identity c t n d \<longrightarrow> driver_version (desc d) < driver_version (desc r)"
        "\<forall>d\<in>set post. same_identity c t n d \<longrightarrow> driver_version (desc d) \<le> driver_version (desc r)"
        by blast
      have "?swap (x # xs) t0"
        using h step False by (intro exI[of _ "x # pre"] exI[of _ r] exI[of _ post]) simp
      then show ?thesis ..
    qed
  next
    case True
    with Cons.prems have nv: "driver_version (desc x) \<noteq> v" by simp
    show ?thesis
    proof (cases "driver_version (desc t0) < driver_version (desc x)")
      case lt: True
      have step: "GetDriver_loop (x # xs) c t n v (Some t0) = GetDriver_loop xs c t n v (Some x)"
        using True nv lt by (rule GetDriver_loop_replace)
      from IH[of x] have "?swap (x # xs) t0"
      proof
        assume "?keep xs x"
        with step True lt show ?thesis
          by (intro exI[of _ "[]"] exI[of _ x] exI[of _ xs]) simp
      next
        assume "?swap xs x"
        then obtain pre r post where h: "xs = pre @ r # post"
          "GetDriver_loop xs c t n v (Some x) = Some r" "same_identity c t n r"
          "driver_version (desc x) < driver_version (desc r)"
          "\<forall>d\<in>set pre. same_identity c t n d \<longrightarrow> driver_version (desc d) < driver_version (desc r)"
          "\<forall>d\<in>set post. same_identity c t n d \<longrightarrow> driver_version (desc d) \<le> driver_version (desc r)"
          by blast
        from lt h(4) have "driver_version (desc t0) < driver_version (desc r)" by (rule less_trans)
        with h step show ?thesis
          by (intro exI[of _ "x # pre"] exI[of _ r] exI[of _ post]) simp
      qed
      then show ?thesis ..
    next
      case ge: False
      then have le: "driver_version (desc x) \<le> driver_version (desc t0)" by simp
      have step: "GetDriver_loop (x # xs) c t n v (Some t0) = GetDriver_loop xs c t n v (Some t0)"
        using True nv ge by (rule GetDriver_loop_keep)
      from IH[of t0] show ?thesis
      proof
        assume "?keep xs t0"
        with step le have "?keep (x # xs) t0" by simp
        then show ?thesis ..
      next
        assume "?swap xs t0"
        then obtain pre r post where h: "xs = pre @ r # post"
          "GetDriver_loop xs c t n v (Some t0) = Some r" "same_identity c t n r"
          "driver_version (desc t0) < driver_version (desc r)"
          "\<forall>d\<in>set pre. same_identity c t n d \<longrightarrow> driver_version (desc d) < driver_version (desc r)"
          "\<forall>d\<in>set post. same_identity c t n d \<longrightarrow> driver_version (desc d) \<le> driver_version (desc r)"
          by blast
        from le h(4) have "driver_version (desc x) < driver_version (desc r)" by (rule le_less_trans)
        with h step have "?swap (x # xs) t0"
          by (intro exI[of _ "x # pre"] exI[of _ r] exI[of _ post]) simp
        then show ?thesis ..
      qed
    qed
  qed
qed

lemma GetDriver_loop_fallback:
  assumes nv: "\<forall>d\<in>set ds. same_identity c t n d \<longrightarrow> driver_version (desc d) \<noteq> v"
    and ex: "\<exists>d\<in>set ds. same_identity c t n d"
  shows "\<exists>pre r post. ds = pre @ r # post \<and> GetDriver_loop ds c t n v None = Some r
               \<and> same_identity c t n r
               \<and> (\<forall>d\<in>set pre. same_identity c t n d \<longrightarrow> driver_version (desc d) < driver_version (desc r))
               \<and> (\<forall>d\<in>set post. same_identity c t n d \<longrightarrow> driver_version (desc d) \<le> driver_version (desc r))"
proof -
  from ex obtain p0 x rest where sp: "ds = p0 @ x # rest" "same_identity c t n x"
    "\<forall>d\<in>set p0. \<not> same_identity c t n d"
    by (metis split_list_first_prop)
  have pre_skip: "GetDriver_loop (p0 @ ys) c t n v temp = GetDriver_loop ys c t n v temp" for ys temp
    using sp(3) by (induction p0) (simp_all add: GetDriver_loop_skip del: GetDriver_loop.simps(2))
  from nv sp have xv: "driver_version (desc x) \<noteq> v" by simp
  have start: "GetDriver_loop ds c t n v None = GetDriver_loop rest c t n v (Some x)"
    using sp(1,2) xv by (simp add: pre_skip GetDriver_loop_first del: GetDriver_loop.simps(2))
  from nv sp(1) have nr: "\<forall>d\<in>set rest. same_identity c t n d \<longrightarrow> driver_version (desc d) \<noteq> v"
    by simp
  from GetDriver_loop_running[OF nr, of x] show ?thesis
  proof
    assume "GetDriver_loop rest c t n v (Some x) = Some x
            \<and> (\<forall>d\<in>set rest. same_identity c t n d \<longrightarrow> driver_version (desc d) \<le> driver_version (desc x))"
    with sp start show ?thesis
      by (intro exI[of _ p0] exI[of _ x] exI[of _ rest]) simp
  next
    assume "\<exists>pre r post. rest = pre @ r # post \<and> GetDriver_loop rest c t n v (Some x) = Some r
               \<and> same_identity c t n r
               \<and> driver_version (desc x) < driver_version (desc r)
               \<and> (\<forall>d\<in>set pre. same_identity c t n d \<longrightarrow> driver_version (desc d) < driver_version (desc r))
               \<and> (\<forall>d\<in>set post. same_identity c t n d \<longrightarrow> driver_version (desc d) \<le> driver_version (desc r))"
    then obtain pre r post where h: "rest = pre @ r # post"
        "GetDriver_loop rest c t n v (Some x) = Some r" "same_identity c t n r"
        "driver_version (desc x) < driver_version (desc r)"
        "\<forall>d\<in>set pre. same_identity c t n d \<longrightarrow> driver_version (desc d) < driver_version (desc r)"
        "\<forall>d\<in>set post. same_identity c t n d \<longrightarrow> driver_version (desc d) \<le> driver_version (desc r)"
      by blast
    show ?thesis
      using h sp start
      by (intro exI[of _ "p0 @ x # pre"] exI[of _ r] exI[of _ post]) auto
  qed
qed

text \<open>
  Claim C2. \<^verbatim>\<open>GetDriver\<close> returns none when no driver has the identity
  \<open>(class, type, name)\<close>. When a driver with that identity and the requested version is in
  the list, it returns one (the first in scan order). Otherwise it returns the driver of that
  identity with the lexicographically greatest version string, the earliest such in scan
  order: all before it are strictly smaller, none after it is greater. Among the versions
  \<^verbatim>\<open>"2.0.0"\<close> and \<^verbatim>\<open>"10.0.0"\<close>, in either order, it selects \<^verbatim>\<open>"2.0.0"\<close>.
\<close>

theorem GetDriver_selects:
  "(\<not> (\<exists>d\<in>set ds. same_identity c t n d) \<longrightarrow> GetDriver ds c t n v = None)
   \<and> ((\<exists>d\<in>set ds. same_identity c t n d \<and> driver_version (desc d) = v) \<longrightarrow>
        (\<exists>pre r post. ds = pre @ r # post \<and> GetDriver ds c t n v = Some r
           \<and> same_identity c t n r \<and> driver_version (desc r) = v
           \<and> (\<forall>d\<in>set pre. \<not> (same_identity c t n d \<and> driver_version (desc d) = v))))
   \<and> ((\<exists>d\<in>set ds. same_identity c t n d)
        \<and> \<not> (\<exists>d\<in>set ds. same_identity c t n d \<and> driver_version (desc d) = v) \<longrightarrow>
        (\<exists>pre r post. ds = pre @ r # post \<and> GetDriver ds c t n v = Some r
           \<and> same_identity c t n r
           \<and> (\<forall>d\<in>set pre. same_identity c t n d \<longrightarrow>
                 driver_version (desc d) < driver_version (desc r))
           \<and> (\<forall>d\<in>set post. same_identity c t n d \<longrightarrow>
                 driver_version (desc d) \<le> driver_version (desc r))))
   \<and> GetDriver [driver_of c t n ''2.0.0'', driver_of c t n ''10.0.0''] c t n []
        = Some (driver_of c t n ''2.0.0'')
   \<and> GetDriver [driver_of c t n ''10.0.0'', driver_of c t n ''2.0.0''] c t n []
        = Some (driver_of c t n ''2.0.0'')"
proof (intro conjI impI)
  assume "\<not> (\<exists>d\<in>set ds. same_identity c t n d)"
  then show "GetDriver ds c t n v = None"
    by (simp add: GetDriver_def GetDriver_loop_no_match)
next
  assume "\<exists>d\<in>set ds. same_identity c t n d \<and> driver_version (desc d) = v"
  from GetDriver_loop_exact[OF this, of None]
  show "\<exists>pre r post. ds = pre @ r # post \<and> GetDriver ds c t n v = Some r
           \<and> same_identity c t n r \<and> driver_version (desc r) = v
           \<and> (\<forall>d\<in>set pre. \<not> (same_identity c t n d \<and> driver_version (desc d) = v))"
    by (simp add: GetDriver_def)
next
  assume a: "(\<exists>d\<in>set ds. same_identity c t n d)
        \<and> \<not> (\<exists>d\<in>set ds. same_identity c t n d \<and> driver_version (desc d) = v)"
  then have nv: "\<forall>d\<in>set ds. same_identity c t n d \<longrightarrow> driver_version (desc d) \<noteq> v"
    and ex: "\<exists>d\<in>set ds. same_identity c t n d"
    by blast+
  from GetDriver_loop_fallback[OF nv ex]
  show "\<exists>pre r post. ds = pre @ r # post \<and> GetDriver ds c t n v = Some r
           \<and> same_identity c t n r
           \<and> (\<forall>d\<in>set pre. same_identity c t n d \<longrightarrow>
                 driver_version (desc d) < driver_version (desc r))
           \<and> (\<forall>d\<in>set post. same_identity c t n d \<longrightarrow>
                 driver_version (desc d) \<le> driver_version (desc r))"
    by (simp add: GetDriver_def)
next
  show "GetDriver [driver_of c t n ''2.0.0'', driver_of c t n ''10.0.0''] c t n []
        = Some (driver_of c t n ''2.0.0'')"
    by (simp add: GetDriver_def driver_of_def new_Driver_def new_DriverDesc_def)
next
  show "GetDriver [driver_of c t n ''10.0.0'', driver_of c t n ''2.0.0''] c t n []
        = Some (driver_of c t n ''2.0.0'')"
    by (simp add: GetDriver_def driver_of_def new_Driver_def new_DriverDesc_def)
qed

theorem GetDriver_selects_witness:
  "(\<exists>d\<in>set [driver_of ''cpu'' ''x'' ''foo'' ''1.0.0'', driver_of ''cpu'' ''x'' ''bar'' ''9.0.0'',
              driver_of ''cpu'' ''x'' ''foo'' ''1.2.0'', driver_of ''cpu'' ''x'' ''foo'' ''1.2.0''].
       same_identity ''cpu'' ''x'' ''foo'' d)
   \<and> GetDriver [driver_of ''cpu'' ''x'' ''foo'' ''1.0.0'', driver_of ''cpu'' ''x'' ''bar'' ''9.0.0'',
              driver_of ''cpu'' ''x'' ''foo'' ''1.2.0'', driver_of ''cpu'' ''x'' ''foo'' ''1.2.0'']
        ''cpu'' ''x'' ''foo'' ''3.0.0'' = Some (driver_of ''cpu'' ''x'' ''foo'' ''1.2.0'')
   \<and> GetDriver [driver_of ''cpu'' ''x'' ''foo'' ''1.0.0'', driver_of ''cpu'' ''x'' ''bar'' ''9.0.0'',
              driver_of ''cpu'' ''x'' ''foo'' ''1.2.0'', driver_of ''cpu'' ''x'' ''foo'' ''1.2.0'']
        ''cpu'' ''x'' ''foo'' ''1.0.0'' = Some (driver_of ''cpu'' ''x'' ''foo'' ''1.0.0'')
   \<and> GetDriver [driver_of ''cpu'' ''x'' ''foo'' ''1.0.0'', driver_of ''cpu'' ''x'' ''bar'' ''9.0.0'',
              driver_of ''cpu'' ''x'' ''foo'' ''1.2.0'', driver_of ''cpu'' ''x'' ''foo'' ''1.2.0'']
        ''gpu'' ''x'' ''foo'' ''1.0.0'' = None"
proof -
  let ?ds = "[driver_of ''cpu'' ''x'' ''foo'' ''1.0.0'', driver_of ''cpu'' ''x'' ''bar'' ''9.0.0'',
              driver_of ''cpu'' ''x'' ''foo'' ''1.2.0'', driver_of ''cpu'' ''x'' ''foo'' ''1.2.0'']"
  have none: "\<not> (\<exists>d\<in>set ?ds. same_identity ''gpu'' ''x'' ''foo'' d)"
    by (simp add: same_identity_def driver_of_def new_Driver_def new_DriverDesc_def)
  have some: "\<exists>d\<in>set ?ds. same_identity ''cpu'' ''x'' ''foo'' d"
    by (simp add: same_identity_def driver_of_def new_Driver_def new_DriverDesc_def)
  from none GetDriver_selects[of ?ds "''gpu''" "''x''" "''foo''" "''1.0.0''"]
  have "GetDriver ?ds ''gpu'' ''x'' ''foo'' ''1.0.0'' = None"
    by blast
  moreover have "GetDriver ?ds ''cpu'' ''x'' ''foo'' ''3.0.0''
      = Some (driver_of ''cpu'' ''x'' ''foo'' ''1.2.0'')"
    by (simp add: GetDriver_def driver_of_def new_Driver_def new_DriverDesc_def)
  moreover have "GetDriver ?ds ''cpu'' ''x'' ''foo'' ''1.0.0''
      = Some (driver_of ''cpu'' ''x'' ''foo'' ''1.0.0'')"
    by (simp add: GetDriver_def driver_of_def new_Driver_def new_DriverDesc_def)
  ultimately show ?thesis
    using some by blast
qed

subsection \<open>The factory life cycle\<close>

lemmas lifecycle_defs =
  CreateFactory_def CreateFactory_abort_def CreateFactory_build_def CloseFactory_def
  CloseFactory_finish_def DriverHandler_Add_def DriverHandler_Get_def DriverHandler_Remove_def
  IncHanderRefcnt_def DecHanderRefcnt_def new_DriverHandlerInfo_def emit_def

lemma CloseFactory_events:
  "CloseFactory lib d p = Inr (d', p') \<Longrightarrow>
   \<exists>evs. events p' = events p @ evs \<and> (\<forall>k. Call_DriverInit k \<notin> set evs)"
  by (auto simp: lifecycle_defs Let_def split: if_splits option.splits sum.splits)

lemma CloseFactory_no_fault:
  "driver_handler d = Some h \<Longrightarrow> handler_map p h \<noteq> None \<Longrightarrow>
   \<exists>d' p'. CloseFactory lib d p = Inr (d', p')"
  by (auto simp: lifecycle_defs Let_def split: if_splits option.splits sum.splits)

lemma CreateFactory_abort_events:
  assumes "driver_handler d = Some h" and "handler_map p h \<noteq> None"
  shows "\<exists>f d' p' evs. CreateFactory_abort lib d p = Inr (f, d', p')
           \<and> events p' = events p @ evs \<and> (\<forall>k. Call_DriverInit k \<notin> set evs)"
proof -
  from CloseFactory_no_fault[OF assms] obtain d' p' where c: "CloseFactory lib d p = Inr (d', p')"
    by blast
  from CloseFactory_events[OF c] c show ?thesis
    by (auto simp: CreateFactory_abort_def)
qed

lemma CreateFactory_build_events:
  assumes "driver_handler d = Some h" and "handler_map p h \<noteq> None"
  shows "\<exists>f d' p' evs. CreateFactory_build lib h d p = Inr (f, d', p')
           \<and> events p' = events p @ evs \<and> (\<forall>k. Call_DriverInit k \<notin> set evs)"
proof (cases "sym_CreateDriverFactory lib")
  case None
  from CreateFactory_abort_events[where d = d and h = h and lib = lib
      and p = "p\<lparr>StatusError := (STATUS_INVALID,
                 ''failed to dlsym function DriverDescription in file: '' @ GetDriverFile d
                 @ '', error: ''
                 @ (case dlerror_result lib of None \<Rightarrow> ''no error msg.'' | Some msg \<Rightarrow> msg))\<rparr>"]
    assms None
  show ?thesis by (simp add: CreateFactory_build_def)
next
  case (Some made)
  show ?thesis
  proof (cases made)
    case None
    from CreateFactory_abort_events[where d = "d\<lparr>factory := None\<rparr>" and h = h and lib = lib
      and p = "(emit (Call_CreateDriverFactory h) p)\<lparr>StatusError := (STATUS_FAULT,
                       ''create driver failed, driver:'' @ GetDriverFile d)\<rparr>"]
      assms
    obtain f d' p' evs where
      r: "CreateFactory_abort lib (d\<lparr>factory := None\<rparr>)
           ((emit (Call_CreateDriverFactory h) p)\<lparr>StatusError := (STATUS_FAULT,
                       ''create driver failed, driver:'' @ GetDriverFile d)\<rparr>) = Inr (f, d', p')"
         "events p' = (events p @ [Call_CreateDriverFactory h]) @ evs"
         "\<forall>k. Call_DriverInit k \<notin> set evs"
      by (auto simp: emit_def)
    show ?thesis
      using r None Some
      by (intro exI[of _ f] exI[of _ d'] exI[of _ p'] exI[of _ "Call_CreateDriverFactory h # evs"])
         (simp add: CreateFactory_build_def Let_def)
  next
    case (Some fa)
    with \<open>sym_CreateDriverFactory lib = Some made\<close> show ?thesis
      by (intro exI[of _ "Some fa"] exI[of _ "d\<lparr>factory := Some fa\<rparr>"]
            exI[of _ "emit (Call_CreateDriverFactory h) p"] exI[of _ "[Call_CreateDriverFactory h]"])
         (simp add: CreateFactory_build_def Let_def emit_def)
  qed
qed

text \<open>A resident entry whose count is not zero: the next first use does not initialise.\<close>

lemma CreateFactory_resident_no_init:
  assumes "dlopen_result lib = Some h" and "handler_map p h = Some info"
    and "initialize_count info \<noteq> 0"
  shows "\<exists>f d' p' evs. CreateFactory lib d p = Inr (f, d', p')
           \<and> events p' = events p @ evs \<and> (\<forall>k. Call_DriverInit k \<notin> set evs)"
proof (cases "factory_count d + 1 = 1")
  case False
  then show ?thesis
    by (intro exI[of _ "factory d"] exI[of _ "d\<lparr>factory_count := factory_count d + 1\<rparr>"]
          exI[of _ p] exI[of _ "[]"]) (simp add: CreateFactory_def Let_def)
next
  case True
  let ?d1 = "d\<lparr>factory_count := factory_count d + 1, driver_handler := Some h\<rparr>"
  let ?e = "Dlopen (GetDriverFile d)
              (GetMode (driver_no_delete (desc d)) (global (desc d)) (deep_bind (desc d)))"
  let ?info = "info\<lparr>handler_count := handler_count info + 1,
                    initialize_count := initialize_count info + 1\<rparr>"
  let ?p2 = "(emit ?e p)\<lparr>handler_map := (handler_map p)(h \<mapsto> ?info)\<rparr>"
  have eq: "CreateFactory lib d p = CreateFactory_build lib h ?d1 ?p2"
    using True assms
    by (simp add: CreateFactory_def Let_def DriverHandler_Add_def DriverHandler_Get_def
        IncHanderRefcnt_def emit_def GetDriverFile_def)
  from CreateFactory_build_events[of ?d1 h ?p2 lib]
  obtain f d' p' evs where r: "CreateFactory_build lib h ?d1 ?p2 = Inr (f, d', p')"
      "events p' = events ?p2 @ evs" "\<forall>k. Call_DriverInit k \<notin> set evs"
    by auto
  show ?thesis
    using r eq
    by (intro exI[of _ f] exI[of _ d'] exI[of _ p'] exI[of _ "?e # evs"]) (simp add: emit_def)
qed

lemma CloseFactory_no_delete_no_fini:
  "driver_no_delete (desc d) \<Longrightarrow> CloseFactory lib d p = Inr (d', p') \<Longrightarrow>
   \<exists>evs. events p' = events p @ evs \<and> (\<forall>k. Call_DriverFini k \<notin> set evs)"
  by (auto simp: lifecycle_defs Let_def split: if_splits option.splits)

lemma CloseFactory_no_delete:
  assumes "driver_no_delete (desc d)" and "factory_count d = 1"
    and "driver_handler d = Some h" and "handler_map p h = Some info"
  shows "CloseFactory lib d p =
      Inr (d\<lparr>factory_count := 0, factory := None, driver_handler := None\<rparr>,
           p\<lparr>handler_map := (handler_map p)
                (h \<mapsto> info\<lparr>initialize_count :=
                     (if initialize_count info = 1 then 1 else initialize_count info - 1)\<rparr>),
              events := events p @ [Dlclose h]\<rparr>)"
  using assms
  by (simp add: lifecycle_defs Let_def)

text \<open>
  Claim C1. When the first \<^verbatim>\<open>CreateFactory\<close> of a driver fails to resolve or to run
  \<^verbatim>\<open>DriverInit\<close>, the unwinding is to release the table entry it acquired. In the code the
  factory count does return to 0, the handle is closed and forgotten, and the factory slot is
  empty, but the failure branch decrements the entry's initialize count and the
  \<^verbatim>\<open>CloseFactory\<close> it then calls decrements it again: the count ends at \<open>-1\<close>, the test for
  0 fails, and the entry stays in the table with its handle count at 1.
\<close>

theorem CreateFactory_init_failure_keeps_entry:
  assumes "factory_count d = 0" and "handler_map p h = None"
    and "dlopen_result lib = Some h" and "sym_DriverInit lib \<noteq> Some STATUS_OK"
  shows "\<exists>d' p'. CreateFactory lib d p = Inr (None, d', p')
           \<and> factory_count d' = 0 \<and> driver_handler d' = None \<and> factory d' = None
           \<and> Dlclose h \<in> set (events p')
           \<and> handler_map p' h = Some \<lparr>initialize_count = - 1, handler_count = 1\<rparr>"
  using assms
  by (cases "sym_DriverInit lib") (auto simp: lifecycle_defs Let_def)

theorem CreateFactory_init_failure_keeps_entry_witness:
  "\<exists>d' p'. CreateFactory (plugin_library 7 None) new_Driver initial_process = Inr (None, d', p')
      \<and> factory_count d' = 0 \<and> driver_handler d' = None \<and> factory d' = None
      \<and> Dlclose 7 \<in> set (events p')
      \<and> handler_map p' 7 = Some \<lparr>initialize_count = - 1, handler_count = 1\<rparr>"
  using CreateFactory_init_failure_keeps_entry
          [of new_Driver initial_process 7 "plugin_library 7 None"]
  by (simp add: new_Driver_def initial_process_def plugin_library_def)

text \<open>
  Claim C3. For a driver whose descriptor has \<^verbatim>\<open>no_delete\<close> set, the last
  \<^verbatim>\<open>CloseFactory\<close> (factory count 1 going to 0) keeps the entry of its handle in the table:
  an initialize count that reaches 0 is put back to 1, so an entry at count 1 is left as it
  was. \<^verbatim>\<open>DriverFini\<close> is not called, by this or by any other \<^verbatim>\<open>CloseFactory\<close> of
  such a driver: here the only call out is the \<^verbatim>\<open>dlclose\<close>. And a
  following \<^verbatim>\<open>CreateFactory\<close>, of any driver for which \<^verbatim>\<open>dlopen\<close> returns the same
  handle, returns without calling \<^verbatim>\<open>DriverInit\<close>.
\<close>

theorem no_delete_CloseFactory_pins_entry:
  assumes nd: "driver_no_delete (desc d)"
  shows "(\<forall>d' p'. CloseFactory lib d p = Inr (d', p') \<longrightarrow>
            (\<exists>evs. events p' = events p @ evs \<and> (\<forall>k. Call_DriverFini k \<notin> set evs)))
         \<and> (factory_count d = 1 \<and> driver_handler d = Some h \<and> handler_map p h = Some info \<longrightarrow>
            (\<exists>d' p'. CloseFactory lib d p = Inr (d', p')
               \<and> factory_count d' = 0 \<and> driver_handler d' = None \<and> factory d' = None
               \<and> events p' = events p @ [Dlclose h]
               \<and> handler_map p' h = Some (info\<lparr>initialize_count :=
                      (if initialize_count info = 1 then 1 else initialize_count info - 1)\<rparr>)
               \<and> (initialize_count info = 1 \<longrightarrow> handler_map p' h = Some info)
               \<and> (\<forall>lib2 d2. dlopen_result lib2 = Some h \<longrightarrow>
                     (\<exists>f d2' p2 evs. CreateFactory lib2 d2 p' = Inr (f, d2', p2)
                        \<and> events p2 = events p' @ evs
                        \<and> (\<forall>k. Call_DriverInit k \<notin> set evs)))))"
proof (intro conjI allI impI)
  fix d' p'
  assume "CloseFactory lib d p = Inr (d', p')"
  with nd show "\<exists>evs. events p' = events p @ evs \<and> (\<forall>k. Call_DriverFini k \<notin> set evs)"
    by (rule CloseFactory_no_delete_no_fini)
next
  assume a: "factory_count d = 1 \<and> driver_handler d = Some h \<and> handler_map p h = Some info"
  let ?info = "info\<lparr>initialize_count :=
                  (if initialize_count info = 1 then 1 else initialize_count info - 1)\<rparr>"
  let ?d = "d\<lparr>factory_count := 0, factory := None, driver_handler := None\<rparr>"
  let ?p = "p\<lparr>handler_map := (handler_map p)(h \<mapsto> ?info),
              events := events p @ [Dlclose h]\<rparr>"
  have c: "CloseFactory lib d p = Inr (?d, ?p)"
    using nd a by (intro CloseFactory_no_delete) simp_all
  have nz: "initialize_count ?info \<noteq> 0"
    by simp
  have hm: "handler_map ?p h = Some ?info"
    by simp
  have next_use: "\<exists>f d2' p2 evs. CreateFactory lib2 d2 ?p = Inr (f, d2', p2)
       \<and> events p2 = events ?p @ evs \<and> (\<forall>k. Call_DriverInit k \<notin> set evs)"
    if "dlopen_result lib2 = Some h" for lib2 d2
    using that hm nz by (rule CreateFactory_resident_no_init)
  have same: "initialize_count info = 1 \<longrightarrow> handler_map ?p h = Some info"
    by simp
  show "\<exists>d' p'. CloseFactory lib d p = Inr (d', p')
               \<and> factory_count d' = 0 \<and> driver_handler d' = None \<and> factory d' = None
               \<and> events p' = events p @ [Dlclose h]
               \<and> handler_map p' h = Some ?info
               \<and> (initialize_count info = 1 \<longrightarrow> handler_map p' h = Some info)
               \<and> (\<forall>lib2 d2. dlopen_result lib2 = Some h \<longrightarrow>
                     (\<exists>f d2' p2 evs. CreateFactory lib2 d2 p' = Inr (f, d2', p2)
                        \<and> events p2 = events p' @ evs
                        \<and> (\<forall>k. Call_DriverInit k \<notin> set evs)))"
    using c next_use same
    by (intro exI[of _ ?d] exI[of _ ?p]) simp
qed

theorem no_delete_CloseFactory_pins_entry_witness:
  "\<exists>f d1 p1 d2 p2 f3 d3 p3.
      CreateFactory (plugin_library 7 (Some STATUS_OK))
        (new_Driver\<lparr>desc := new_DriverDesc\<lparr>driver_no_delete := True\<rparr>\<rparr>) initial_process
        = Inr (Some f, d1, p1)
      \<and> driver_no_delete (desc d1) \<and> factory_count d1 = 1 \<and> driver_handler d1 = Some 7
      \<and> handler_map p1 7 = Some \<lparr>initialize_count = 1, handler_count = 1\<rparr>
      \<and> CloseFactory (plugin_library 7 (Some STATUS_OK)) d1 p1 = Inr (d2, p2)
      \<and> factory_count d2 = 0
      \<and> handler_map p2 7 = Some \<lparr>initialize_count = 1, handler_count = 1\<rparr>
      \<and> Call_DriverFini 7 \<notin> set (events p2)
      \<and> CreateFactory (plugin_library 7 (Some STATUS_OK)) d2 p2 = Inr (f3, d3, p3)
      \<and> events p3
          = [Dlopen [] {RTLD_NOW, RTLD_NODELETE, RTLD_LOCAL}, Call_DriverInit 7,
             Call_CreateDriverFactory 7, Dlclose 7,
             Dlopen [] {RTLD_NOW, RTLD_NODELETE, RTLD_LOCAL}, Call_CreateDriverFactory 7]"
proof -
  let ?lib = "plugin_library 7 (Some STATUS_OK)"
  let ?d0 = "new_Driver\<lparr>desc := new_DriverDesc\<lparr>driver_no_delete := True\<rparr>\<rparr>"
  let ?e = "Dlopen [] {RTLD_NOW, RTLD_NODELETE, RTLD_LOCAL}"
  let ?d1 = "?d0\<lparr>factory_count := 1, driver_handler := Some 7, factory := Some 1\<rparr>"
  let ?p1 = "initial_process
      \<lparr>handler_map := (\<lambda>h. None)(7 \<mapsto> \<lparr>initialize_count = 1, handler_count = 1\<rparr>),
       events := [?e, Call_DriverInit 7, Call_CreateDriverFactory 7]\<rparr>"
  have mode: "GetMode True False False = {RTLD_NOW, RTLD_NODELETE, RTLD_LOCAL}"
    by (auto simp: GetMode_def Let_def)
  have c1: "CreateFactory ?lib ?d0 initial_process = Inr (Some 1, ?d1, ?p1)"
    by (simp add: lifecycle_defs Let_def mode GetDriverFile_def plugin_library_def
        new_Driver_def new_DriverDesc_def initial_process_def)
  have h1: "driver_no_delete (desc ?d1)" and h2: "factory_count ?d1 = 1"
    and h3: "driver_handler ?d1 = Some 7"
    and h4: "handler_map ?p1 7 = Some \<lparr>initialize_count = 1, handler_count = 1\<rparr>"
    by (simp_all add: new_Driver_def new_DriverDesc_def)
  from h2 h3 h4 no_delete_CloseFactory_pins_entry[OF h1, where lib = ?lib and p = ?p1
      and h = 7 and info = "\<lparr>initialize_count = 1, handler_count = 1\<rparr>"]
  obtain d2 p2 where c2: "CloseFactory ?lib ?d1 ?p1 = Inr (d2, p2)"
    and f2: "factory_count d2 = 0" "driver_handler d2 = None"
    and e2: "events p2 = events ?p1 @ [Dlclose 7]"
    and m2: "handler_map p2 7 = Some \<lparr>initialize_count = 1, handler_count = 1\<rparr>"
    by auto
  have c2': "CloseFactory ?lib ?d1 ?p1 =
      Inr (?d1\<lparr>factory_count := 0, factory := None, driver_handler := None\<rparr>,
           ?p1\<lparr>handler_map := (handler_map ?p1)
                  (7 \<mapsto> \<lparr>initialize_count = 1, handler_count = 1\<rparr>),
               events := events ?p1 @ [Dlclose 7]\<rparr>)"
    by (simp add: lifecycle_defs Let_def plugin_library_def new_Driver_def new_DriverDesc_def
        initial_process_def)
  with c2 have d2: "d2 = ?d1\<lparr>factory_count := 0, factory := None, driver_handler := None\<rparr>"
    and p2: "p2 = ?p1\<lparr>handler_map := (handler_map ?p1)
                  (7 \<mapsto> \<lparr>initialize_count = 1, handler_count = 1\<rparr>),
               events := events ?p1 @ [Dlclose 7]\<rparr>"
    by simp_all
  have c3: "\<exists>f3 d3 p3. CreateFactory ?lib d2 p2 = Inr (f3, d3, p3)
      \<and> events p3 = [?e, Call_DriverInit 7, Call_CreateDriverFactory 7, Dlclose 7,
                      ?e, Call_CreateDriverFactory 7]"
    unfolding d2 p2
    by (simp add: lifecycle_defs Let_def mode GetDriverFile_def plugin_library_def
        new_Driver_def new_DriverDesc_def initial_process_def)
  from e2 have nf: "Call_DriverFini 7 \<notin> set (events p2)"
    by simp
  show ?thesis
    using c1 c2 f2 m2 nf c3 h1 h2 h3 h4 by blast
qed

text \<open>
  Claim C9. \<^verbatim>\<open>DriverHandler::Remove\<close> and the release path of \<^verbatim>\<open>CloseFactory\<close> need
  the handle to be in the table: \<^verbatim>\<open>Remove\<close> ends in the null dereference exactly when
  the handle has no entry, and \<^verbatim>\<open>CloseFactory\<close> does exactly when it is the last close
  (the count does not stay positive) of a driver that holds a handle with no entry.
\<close>

theorem missing_entry_null_dereference:
  "(DriverHandler_Remove hm h = Inl NullDereference) = (hm h = None)
   \<and> (CloseFactory lib d p = Inl NullDereference)
       = (factory_count d \<le> 1 \<and> (\<exists>k. driver_handler d = Some k \<and> handler_map p k = None))"
  by (auto simp: lifecycle_defs Let_def split: option.splits if_splits)

theorem missing_entry_null_dereference_witness:
  "DriverHandler_Remove (\<lambda>h. None) 7 = Inl NullDereference
   \<and> CloseFactory (plugin_library 7 (Some STATUS_OK))
        (new_Driver\<lparr>factory_count := 1, driver_handler := Some 7\<rparr>) initial_process
       = Inl NullDereference"
  using missing_entry_null_dereference[of "\<lambda>h. None" 7 "plugin_library 7 (Some STATUS_OK)"
          "new_Driver\<lparr>factory_count := 1, driver_handler := Some 7\<rparr>" initial_process]
  by (simp add: new_Driver_def initial_process_def)

subsection \<open>Registering drivers and the scan cache\<close>

lemma DriversContains_iff:
  "DriversContains dl driver = (\<exists>d\<in>set dl. same_descriptor d driver)"
  by (induction dl) (auto simp: same_descriptor_def)

text \<open>
  Claim C7. For every file \<^verbatim>\<open>Add\<close> leaves \<^verbatim>\<open>drivers_list\<close> as it was or appends one
  driver to it. Every status other than OK leaves the registry unchanged: a failed
  \<^verbatim>\<open>dlopen\<close> (invalid), a missing \<^verbatim>\<open>DriverDescription\<close> (not supported), and a
  descriptor that agrees with a registered driver on class, type, name, version and
  description (exists, "already registered"). Otherwise the described driver, stamped with
  the file path, is appended.
\<close>

theorem Drivers_Add_appends_at_most_one:
  "(drivers_list (fst (snd (Drivers_Add lib ds file))) = drivers_list ds
      \<or> (\<exists>driver. drivers_list (fst (snd (Drivers_Add lib ds file))) = drivers_list ds @ [driver]))
   \<and> (fst (fst (Drivers_Add lib ds file)) \<noteq> STATUS_OK \<longrightarrow>
        fst (snd (Drivers_Add lib ds file)) = ds)
   \<and> (lazy_dlopen_result lib = None \<longrightarrow>
        fst (fst (Drivers_Add lib ds file)) = STATUS_INVALID
        \<and> fst (snd (Drivers_Add lib ds file)) = ds)
   \<and> (lazy_dlopen_result lib \<noteq> None \<and> sym_DriverDescription lib = None \<longrightarrow>
        fst (fst (Drivers_Add lib ds file)) = STATUS_NOTSUPPORT
        \<and> fst (snd (Drivers_Add lib ds file)) = ds)
   \<and> (\<forall>driver_func.
        lazy_dlopen_result lib \<noteq> None \<and> sym_DriverDescription lib = Some driver_func
        \<and> (\<exists>d\<in>set (drivers_list ds).
              same_descriptor d (new_Driver\<lparr>desc := driver_func (desc new_Driver)\<rparr>)) \<longrightarrow>
        fst (Drivers_Add lib ds file)
          = (STATUS_EXIST, file @ '' : driver is already registered.'')
        \<and> fst (snd (Drivers_Add lib ds file)) = ds)
   \<and> (\<forall>driver_func.
        lazy_dlopen_result lib \<noteq> None \<and> sym_DriverDescription lib = Some driver_func
        \<and> \<not> (\<exists>d\<in>set (drivers_list ds).
              same_descriptor d (new_Driver\<lparr>desc := driver_func (desc new_Driver)\<rparr>)) \<longrightarrow>
        fst (fst (Drivers_Add lib ds file)) = STATUS_OK
        \<and> drivers_list (fst (snd (Drivers_Add lib ds file)))
            = drivers_list ds
              @ [new_Driver\<lparr>desc := (driver_func (desc new_Driver))\<lparr>driver_file_path := file\<rparr>\<rparr>])"
  by (auto simp: Drivers_Add_def Let_def DriversContains_iff split: option.splits)

theorem Drivers_Add_appends_at_most_one_witness:
  "Drivers_Add (foo_plugin ''1.0.0'') new_Drivers ''/d/libmodelbox-foo.so''
     = ((STATUS_OK, []),
        new_Drivers\<lparr>drivers_list := [foo_driver ''1.0.0'' ''/d/libmodelbox-foo.so'']\<rparr>,
        [Dlopen ''/d/libmodelbox-foo.so'' {RTLD_LAZY, RTLD_LOCAL}, Call_DriverDescription 3,
         Dlclose 3])
   \<and> fst (Drivers_Add (foo_plugin ''1.0.0'')
        (new_Drivers\<lparr>drivers_list := [foo_driver ''1.0.0'' ''/d/libmodelbox-foo.so'']\<rparr>)
        ''/e/libmodelbox-foo.so'')
       = (STATUS_EXIST, ''/e/libmodelbox-foo.so : driver is already registered.'')
   \<and> fst (snd (Drivers_Add (foo_plugin ''1.0.0'')
        (new_Drivers\<lparr>drivers_list := [foo_driver ''1.0.0'' ''/d/libmodelbox-foo.so'']\<rparr>)
        ''/e/libmodelbox-foo.so''))
       = new_Drivers\<lparr>drivers_list := [foo_driver ''1.0.0'' ''/d/libmodelbox-foo.so'']\<rparr>
   \<and> fst (fst (Drivers_Add ((foo_plugin ''1.0.0'')\<lparr>lazy_dlopen_result := None\<rparr>) new_Drivers
        ''/d/libmodelbox-foo.so'')) = STATUS_INVALID
   \<and> fst (fst (Drivers_Add ((foo_plugin ''1.0.0'')\<lparr>sym_DriverDescription := None\<rparr>) new_Drivers
        ''/d/libmodelbox-foo.so'')) = STATUS_NOTSUPPORT"
proof -
  let ?ds = "new_Drivers\<lparr>drivers_list := [foo_driver ''1.0.0'' ''/d/libmodelbox-foo.so'']\<rparr>"
  let ?f = "\<lambda>d. snd (SetVersion
                (d\<lparr>driver_class := ''cpu'', driver_type := ''x'', driver_name := ''foo''\<rparr>) ''1.0.0'')"
  have v: "SetVersion d ''1.0.0'' = ((STATUS_SUCCESS, []), d\<lparr>driver_version := ''1.0.0''\<rparr>)" for d
    by (simp add: SetVersion_def CheckVersion_def getline_loop.simps getline_def isdigit_def)
  have dup: "lazy_dlopen_result (foo_plugin ''1.0.0'') \<noteq> None
      \<and> sym_DriverDescription (foo_plugin ''1.0.0'') = Some ?f
      \<and> (\<exists>d\<in>set (drivers_list ?ds).
              same_descriptor d (new_Driver\<lparr>desc := ?f (desc new_Driver)\<rparr>))"
    by (simp add: foo_plugin_def foo_driver_def same_descriptor_def new_Driver_def
        new_DriverDesc_def v)
  have fresh: "lazy_dlopen_result (foo_plugin ''1.0.0'') \<noteq> None
      \<and> sym_DriverDescription (foo_plugin ''1.0.0'') = Some ?f
      \<and> \<not> (\<exists>d\<in>set (drivers_list new_Drivers).
              same_descriptor d (new_Driver\<lparr>desc := ?f (desc new_Driver)\<rparr>))"
    by (simp add: foo_plugin_def new_Drivers_def)
  have a: "fst (Drivers_Add (foo_plugin ''1.0.0'') ?ds ''/e/libmodelbox-foo.so'')
       = (STATUS_EXIST, ''/e/libmodelbox-foo.so : driver is already registered.'')
     \<and> fst (snd (Drivers_Add (foo_plugin ''1.0.0'') ?ds ''/e/libmodelbox-foo.so'')) = ?ds"
    using dup Drivers_Add_appends_at_most_one
            [of "foo_plugin ''1.0.0''" ?ds "''/e/libmodelbox-foo.so''"]
    by simp
  have b: "fst (fst (Drivers_Add ((foo_plugin ''1.0.0'')\<lparr>lazy_dlopen_result := None\<rparr>) new_Drivers
        ''/d/libmodelbox-foo.so'')) = STATUS_INVALID"
    using Drivers_Add_appends_at_most_one
            [of "(foo_plugin ''1.0.0'')\<lparr>lazy_dlopen_result := None\<rparr>" new_Drivers
                "''/d/libmodelbox-foo.so''"]
    by simp
  have c: "fst (fst (Drivers_Add ((foo_plugin ''1.0.0'')\<lparr>sym_DriverDescription := None\<rparr>)
        new_Drivers ''/d/libmodelbox-foo.so'')) = STATUS_NOTSUPPORT"
    using Drivers_Add_appends_at_most_one
            [of "(foo_plugin ''1.0.0'')\<lparr>sym_DriverDescription := None\<rparr>" new_Drivers
                "''/d/libmodelbox-foo.so''"]
    by (simp add: foo_plugin_def)
  have d: "Drivers_Add (foo_plugin ''1.0.0'') new_Drivers ''/d/libmodelbox-foo.so''
     = ((STATUS_OK, []),
        new_Drivers\<lparr>drivers_list := [foo_driver ''1.0.0'' ''/d/libmodelbox-foo.so'']\<rparr>,
        [Dlopen ''/d/libmodelbox-foo.so'' {RTLD_LAZY, RTLD_LOCAL}, Call_DriverDescription 3,
         Dlclose 3])"
    by (simp add: Drivers_Add_def foo_plugin_def foo_driver_def new_Drivers_def new_Driver_def
        new_DriverDesc_def v Let_def)
  from a b c d show ?thesis by simp
qed

text \<open>
  Claim C4. Writing the scan cache and reading it back into an empty registry is to give the
  same set of descriptor tuples. \<^verbatim>\<open>GatherScanInfo\<close> appends a cached driver only when
  \<^verbatim>\<open>GetDriver\<close> returns none, and \<^verbatim>\<open>GetDriver\<close> falls back to any driver of the same
  class, type and name whatever the version asked for. Two plugin files of one driver in
  versions \<^verbatim>\<open>1.0.0\<close> and \<^verbatim>\<open>2.0.0\<close> are both registered by \<^verbatim>\<open>Add\<close>; after the round
  trip only the first is in the list.
\<close>

theorem scan_cache_round_trip_drops_version:
  "Drivers_Add (foo_plugin ''2.0.0'')
       (fst (snd (Drivers_Add (foo_plugin ''1.0.0'') new_Drivers ''/d/libmodelbox-foo.so.1'')))
       ''/d/libmodelbox-foo.so.2''
     = ((STATUS_OK, []),
        new_Drivers\<lparr>drivers_list := [foo_driver ''1.0.0'' ''/d/libmodelbox-foo.so.1'',
                                      foo_driver ''2.0.0'' ''/d/libmodelbox-foo.so.2'']\<rparr>,
        [Dlopen ''/d/libmodelbox-foo.so.2'' {RTLD_LAZY, RTLD_LOCAL}, Call_DriverDescription 3,
         Dlclose 3])
   \<and> GatherScanInfo
        (snd (WriteScanInfo True ld_mtime now
           (new_Drivers\<lparr>drivers_list := [foo_driver ''1.0.0'' ''/d/libmodelbox-foo.so.1'',
                                         foo_driver ''2.0.0'' ''/d/libmodelbox-foo.so.2'']\<rparr>)
           path code))
        new_Drivers
     = (STATUS_OK,
        new_Drivers\<lparr>drivers_list := [foo_driver ''1.0.0'' ''/d/libmodelbox-foo.so.1'']\<rparr>)
   \<and> descriptor_tuples [foo_driver ''1.0.0'' ''/d/libmodelbox-foo.so.1'']
       \<noteq> descriptor_tuples [foo_driver ''1.0.0'' ''/d/libmodelbox-foo.so.1'',
                             foo_driver ''2.0.0'' ''/d/libmodelbox-foo.so.2'']"
proof -
  have v: "SetVersion d ''1.0.0'' = ((STATUS_SUCCESS, []), d\<lparr>driver_version := ''1.0.0''\<rparr>)"
    "SetVersion d ''2.0.0'' = ((STATUS_SUCCESS, []), d\<lparr>driver_version := ''2.0.0''\<rparr>)" for d
    by (simp_all add: SetVersion_def CheckVersion_def getline_loop.simps getline_def isdigit_def)
  have a: "Drivers_Add (foo_plugin ''2.0.0'')
       (fst (snd (Drivers_Add (foo_plugin ''1.0.0'') new_Drivers ''/d/libmodelbox-foo.so.1'')))
       ''/d/libmodelbox-foo.so.2''
     = ((STATUS_OK, []),
        new_Drivers\<lparr>drivers_list := [foo_driver ''1.0.0'' ''/d/libmodelbox-foo.so.1'',
                                      foo_driver ''2.0.0'' ''/d/libmodelbox-foo.so.2'']\<rparr>,
        [Dlopen ''/d/libmodelbox-foo.so.2'' {RTLD_LAZY, RTLD_LOCAL}, Call_DriverDescription 3,
         Dlclose 3])"
    by (simp add: Drivers_Add_def foo_plugin_def foo_driver_def new_Drivers_def new_Driver_def
        new_DriverDesc_def v Let_def)
  have b: "GatherScanInfo
        (snd (WriteScanInfo True ld_mtime now
           (new_Drivers\<lparr>drivers_list := [foo_driver ''1.0.0'' ''/d/libmodelbox-foo.so.1'',
                                         foo_driver ''2.0.0'' ''/d/libmodelbox-foo.so.2'']\<rparr>)
           path code))
        new_Drivers
     = (STATUS_OK,
        new_Drivers\<lparr>drivers_list := [foo_driver ''1.0.0'' ''/d/libmodelbox-foo.so.1'']\<rparr>)"
    by (simp add: GatherScanInfo_def WriteScanInfo_def new_Drivers_def foo_driver_def
        dump_driver_def new_Driver_def new_DriverDesc_def v GetDriver_def Let_def)
  have c: "descriptor_tuples [foo_driver ''1.0.0'' ''/d/libmodelbox-foo.so.1'']
       \<noteq> descriptor_tuples [foo_driver ''1.0.0'' ''/d/libmodelbox-foo.so.1'',
                             foo_driver ''2.0.0'' ''/d/libmodelbox-foo.so.2'']"
    by (simp add: descriptor_tuples_def foo_driver_def new_Driver_def new_DriverDesc_def)
  from a b c show ?thesis by blast
qed


subsection \<open>Validity of the scan cache\<close>


lemma FillCheckInfo_loop_dom:
  "(FillCheckInfo_loop xs fm f \<noteq> None) = (fm f \<noteq> None \<or> f \<in> js_file_path ` set xs)"
  by (induction xs arbitrary: fm) auto

lemma check_driver_files_eq:
  "check_driver_files fs fm files acc =
     (if \<forall>f\<in>set (filter (regular_file fs) files). fm f \<noteq> None
      then Some (acc + sum_list (map (mtime_of fs) (filter (regular_file fs) files)))
      else None)"
proof (induction files arbitrary: acc)
  case Nil
  then show ?case by simp
next
  case (Cons f files)
  show ?case
  proof (cases "fs_lstat fs f")
    case None
    then have "\<not> regular_file fs f" by (simp add: regular_file_def)
    with None Cons.IH[of acc] show ?thesis by simp
  next
    case (Some buf)
    show ?thesis
    proof (cases "st_kind buf = IsSymlink")
      case True
      with Some have "\<not> regular_file fs f" by (simp add: regular_file_def)
      with Some True Cons.IH[of acc] show ?thesis by simp
    next
      case False
      with Some have r: "regular_file fs f" and m: "mtime_of fs f = st_mtime_sec buf"
        by (simp_all add: regular_file_def mtime_of_def)
      show ?thesis
      proof (cases "fm f")
        case None
        with Some False r show ?thesis by auto
      next
        case fm: (Some b)
        with Some False r m Cons.IH[of "acc + st_mtime_sec buf"] show ?thesis
          by (simp add: add.assoc)
      qed
    qed
  qed
qed

lemma check_driver_dirs_eq:
  "check_driver_dirs fs fm dirs acc =
     (if list_all (dir_readable fs) dirs \<and> (\<forall>f\<in>set (scanned_files fs dirs). fm f \<noteq> None)
      then Some (acc + mtime_total fs dirs)
      else None)"
proof (induction dirs arbitrary: acc)
  case Nil
  then show ?case by (simp add: scanned_files_def mtime_total_def)
next
  case (Cons dir dirs)
  show ?case
  proof (cases "fs_lstat fs dir")
    case None
    then show ?thesis by (simp add: dir_readable_def)
  next
    case (Some s)
    show ?thesis
    proof (cases "st_kind s = IsDirectory")
      case False
      with Some have nd: "\<not> is_directory fs dir" by (simp add: is_directory_def)
      with Some False Cons.IH[of "acc + st_mtime_sec s"] show ?thesis
        by (simp add: dir_readable_def scanned_files_def mtime_total_def dir_files_def mtime_of_def)
    next
      case True
      with Some have d: "is_directory fs dir" by (simp add: is_directory_def)
      obtain status files where l: "fs_ListFiles fs dir ''libmodelbox-*.so*'' = (status, files)"
        by (cases "fs_ListFiles fs dir ''libmodelbox-*.so*''")
      show ?thesis
      proof (cases "status = STATUS_OK")
        case False
        with Some True l d show ?thesis by (simp add: dir_readable_def)
      next
        case ok: True
        have df: "dir_files fs dir = filter (regular_file fs) files"
          using d l by (simp add: dir_files_def)
        have rd: "dir_readable fs dir"
          using Some d l ok by (simp add: dir_readable_def)
        show ?thesis
        proof (cases "files = []")
          case e: True
          with Some True l ok d rd df Cons.IH[of acc] show ?thesis
            by (simp add: scanned_files_def mtime_total_def)
        next
          case ne: False
          show ?thesis
            using Some True l ok d rd df ne
              Cons.IH[of "acc + sum_list (map (mtime_of fs) (filter (regular_file fs) files))"]
            by (simp add: scanned_files_def mtime_total_def check_driver_files_eq ball_Un)
        qed
      qed
    qed
  qed
qed

lemma FillCheckInfo_file_map:
  "(fst (snd (FillCheckInfo dump_json)) f \<noteq> None) = (f \<in> cached_files dump_json)"
  using FillCheckInfo_loop_dom[of "scan_drivers dump_json" "\<lambda>f. None" f]
  by (simp add: FillCheckInfo_def cached_files_def)

text \<open>
  Claim C6, as the code has it. \<^verbatim>\<open>CheckPathAndMagicCode\<close> declares the cache valid if
  and only if: the cache file exists; the linker-cache file exists and its modification time
  equals the cached \<^verbatim>\<open>ld_cache_time\<close>; every configured path can be read by \<^verbatim>\<open>lstat\<close>
  and every configured directory can be listed; every scanned file (listed, readable, not a
  symbolic link) is among the cached file paths, so that no new file exists; and the check
  code derived from the summed modification times equals the cached check code. That every
  cached path still exists is not tested: a removed file shows only through the check code.
\<close>

theorem CheckPathAndMagicCode_valid_iff:
  "CheckPathAndMagicCode ext fs dump_json dirs =
     (fs_stat fs (DEFAULT_SCAN_INFO ext) \<noteq> None
      \<and> (\<exists>buffer. fs_stat fs (DEFAULT_LD_CACHE ext) = Some buffer
            \<and> ld_cache_time dump_json = st_mtime_sec buffer)
      \<and> list_all (dir_readable fs) dirs
      \<and> set (scanned_files fs dirs) \<subseteq> cached_files dump_json
      \<and> check_code dump_json = GenerateKey ext (mtime_total fs dirs))"
proof -
  obtain node fm t where f: "FillCheckInfo dump_json = (node, fm, t)"
    by (cases "FillCheckInfo dump_json")
  then have node: "node = check_code dump_json" and t: "t = ld_cache_time dump_json"
    by (simp_all add: FillCheckInfo_def)
  from f FillCheckInfo_file_map[of dump_json]
  have fm: "(fm x \<noteq> None) = (x \<in> cached_files dump_json)" for x
    by simp
  have sub: "(\<forall>x\<in>set (scanned_files fs dirs). fm x \<noteq> None)
      = (set (scanned_files fs dirs) \<subseteq> cached_files dump_json)"
    using fm by blast
  have cd: "check_driver_dirs fs fm dirs 0 =
      (if list_all (dir_readable fs) dirs
          \<and> set (scanned_files fs dirs) \<subseteq> cached_files dump_json
       then Some (mtime_total fs dirs) else None)"
    unfolding check_driver_dirs_eq sub by simp
  show ?thesis
    by (auto simp: CheckPathAndMagicCode_def f cd node t split: option.splits)
qed

theorem CheckPathAndMagicCode_valid_iff_witness:
  "CheckPathAndMagicCode one_dir_externals one_dir_fs cache_of_one [''/d'']
   \<and> \<not> CheckPathAndMagicCode one_dir_externals one_dir_fs cache_of_one [''/d'', ''/absent'']
   \<and> \<not> CheckPathAndMagicCode one_dir_externals one_dir_fs
         (cache_of_one\<lparr>scan_drivers := []\<rparr>) [''/d'']"
  using CheckPathAndMagicCode_valid_iff[of one_dir_externals one_dir_fs cache_of_one "[''/d'']"]
    CheckPathAndMagicCode_valid_iff
      [of one_dir_externals one_dir_fs cache_of_one "[''/d'', ''/absent'']"]
    CheckPathAndMagicCode_valid_iff
      [of one_dir_externals one_dir_fs "cache_of_one\<lparr>scan_drivers := []\<rparr>" "[''/d'']"]
  by (simp add: one_dir_externals_def one_dir_fs_def cache_of_one_def dir_readable_def
      is_directory_def scanned_files_def dir_files_def regular_file_def mtime_total_def
      mtime_of_def cached_files_def dump_driver_def foo_driver_def new_Driver_def
      new_DriverDesc_def)

text \<open>
  The claim as first stated asks for the cached and the scanned file sets to coincide. With
  the directory above and the cache written when it held a second file of modification time
  0, since deleted, the code declares the cache valid although a cached path is gone.
\<close>

theorem cache_valid_after_file_removed:
  "CheckPathAndMagicCode one_dir_externals one_dir_fs cache_of_two [''/d'']
   \<and> ''/d/libmodelbox-b.so'' \<in> cached_files cache_of_two
   \<and> fs_lstat one_dir_fs ''/d/libmodelbox-b.so'' = None
   \<and> ''/d/libmodelbox-b.so'' \<notin> set (scanned_files one_dir_fs [''/d''])
   \<and> cached_files cache_of_two \<noteq> set (scanned_files one_dir_fs [''/d''])"
proof -
  have sc: "scanned_files one_dir_fs [''/d''] = [''/d/libmodelbox-a.so'']"
    by (simp add: one_dir_fs_def scanned_files_def dir_files_def is_directory_def
        regular_file_def)
  have cf: "cached_files cache_of_two = {''/d/libmodelbox-a.so'', ''/d/libmodelbox-b.so''}"
    by (simp add: cache_of_two_def cached_files_def dump_driver_def foo_driver_def
        new_Driver_def new_DriverDesc_def)
  have v: "CheckPathAndMagicCode one_dir_externals one_dir_fs cache_of_two [''/d'']"
    by (simp add: CheckPathAndMagicCode_def FillCheckInfo_def one_dir_externals_def
        one_dir_fs_def cache_of_two_def dump_driver_def foo_driver_def new_Driver_def
        new_DriverDesc_def)
  have l: "fs_lstat one_dir_fs ''/d/libmodelbox-b.so'' = None"
    by (simp add: one_dir_fs_def)
  show ?thesis
    unfolding sc cf using v l by auto
qed


subsection \<open>Sorted projections\<close>

lemma RemoveSameElements_sorted: "sorted (RemoveSameElements xs)"
  by (simp add: RemoveSameElements_def sorted_remdups_adj)

lemma sorted_remdups_adj_distinct: "sorted xs \<Longrightarrow> distinct (remdups_adj xs)"
  for xs :: "'a::linorder list"
proof (induction xs rule: remdups_adj.induct)
  case (3 x y xs)
  then show ?case by (auto simp: )
qed simp_all

lemma RemoveSameElements_distinct: "distinct (RemoveSameElements xs)"
  by (simp add: RemoveSameElements_def sorted_remdups_adj_distinct)

lemma RemoveSameElements_set: "set (RemoveSameElements xs) = set xs"
  by (simp add: RemoveSameElements_def)

text \<open>
  Claim C10. The class, type and name lists are the projections of the catalogue sorted in
  ascending lexicographic order with the duplicates removed, not in registration order: for
  every catalogue each list is sorted, free of duplicates, and holds exactly the projected
  values of the drivers selected. Drivers registered in the order \<^verbatim>\<open>cpu\<close>,
  \<^verbatim>\<open>ascend\<close>, \<^verbatim>\<open>cpu\<close> give the class list \<^verbatim>\<open>ascend\<close>, \<^verbatim>\<open>cpu\<close>.
\<close>

theorem projection_lists_sorted_distinct:
  "sorted (GetDriverClassList ds) \<and> distinct (GetDriverClassList ds)
   \<and> set (GetDriverClassList ds) = {driver_class (desc d) |d. d \<in> set ds}
   \<and> sorted (GetDriverTypeList ds c) \<and> distinct (GetDriverTypeList ds c)
   \<and> set (GetDriverTypeList ds c) =
       {driver_type (desc d) |d. d \<in> set ds \<and> driver_class (desc d) = c}
   \<and> sorted (GetDriverNameList ds c t) \<and> distinct (GetDriverNameList ds c t)
   \<and> set (GetDriverNameList ds c t) =
       {driver_name (desc d) |d. d \<in> set ds \<and> driver_class (desc d) = c
          \<and> driver_type (desc d) = t}
   \<and> GetDriverClassList [driver_of ''cpu'' t1 n1 v1, driver_of ''ascend'' t2 n2 v2,
         driver_of ''cpu'' t3 n3 v3] = [''ascend'', ''cpu'']"
proof -
  have "GetDriverClassList [driver_of ''cpu'' t1 n1 v1, driver_of ''ascend'' t2 n2 v2,
         driver_of ''cpu'' t3 n3 v3] = [''ascend'', ''cpu'']"
    by (simp add: GetDriverClassList_def RemoveSameElements_def driver_of_def new_Driver_def
        new_DriverDesc_def)
  then show ?thesis
    unfolding GetDriverClassList_def GetDriverTypeList_def GetDriverNameList_def
    by (auto simp: RemoveSameElements_sorted RemoveSameElements_distinct
        RemoveSameElements_set)
qed

end
